theory Spec2Isabelle
  imports Complex_Main "HOL-Library.Word"
begin

section \<open>Scalars\<close>

text \<open>
  The source computes with C++ \<open>int\<close> (32 bit) and \<open>int64_t\<close>. Both are modelled as
  \<open>int\<close>. The one place where the width shows is the narrowing conversion from
  \<open>int64_t\<close> to \<open>int\<close> (\<open>int groups = c10::get<int64_t>(inputs[6])\<close>, and the
  \<open>int\<close> parameters of \<open>conv2d_depthwise\<close> that receive \<open>strides[0]\<close> and
  \<open>padding[0]\<close>): it keeps the low 32 bits, read as two's complement. Signed overflow of
  \<open>int\<close> arithmetic is undefined behaviour in C++ and is not modelled.
\<close>

definition int32_of :: "int \<Rightarrow> int" where
  "int32_of x = sint (word_of_int x :: 32 word)"

text \<open>C++ \<open>/\<close> on integers truncates towards zero (HOL's \<open>div\<close> rounds down).\<close>

definition cdiv :: "int \<Rightarrow> int \<Rightarrow> int" where
  "cdiv a b = sgn a * sgn b * (\<bar>a\<bar> div \<bar>b\<bar>)"

text \<open>
  Values of the IR's \<open>float\<close> type: the finite values (as the rationals they denote, the
  two signed zeros identified), the two infinities and NaN. The special cases of
  multiplication and addition are those of IEEE 754; rounding of a finite result is not
  modelled, and no statement below depends on the value of a finite product or sum.
\<close>

datatype f32 = Finite rat | PInf | NInf | NaN

fun fmul :: "f32 \<Rightarrow> f32 \<Rightarrow> f32" where
  "fmul NaN y = NaN"
| "fmul x NaN = NaN"
| "fmul (Finite a) (Finite b) = Finite (a * b)"
| "fmul (Finite a) PInf = (if a = 0 then NaN else if 0 < a then PInf else NInf)"
| "fmul (Finite a) NInf = (if a = 0 then NaN else if 0 < a then NInf else PInf)"
| "fmul PInf (Finite b) = (if b = 0 then NaN else if 0 < b then PInf else NInf)"
| "fmul NInf (Finite b) = (if b = 0 then NaN else if 0 < b then NInf else PInf)"
| "fmul PInf PInf = PInf"
| "fmul PInf NInf = NInf"
| "fmul NInf PInf = NInf"
| "fmul NInf NInf = PInf"

fun fadd :: "f32 \<Rightarrow> f32 \<Rightarrow> f32" where
  "fadd NaN y = NaN"
| "fadd x NaN = NaN"
| "fadd (Finite a) (Finite b) = Finite (a + b)"
| "fadd (Finite a) PInf = PInf"
| "fadd (Finite a) NInf = NInf"
| "fadd PInf (Finite b) = PInf"
| "fadd NInf (Finite b) = NInf"
| "fadd PInf PInf = PInf"
| "fadd PInf NInf = NaN"
| "fadd NInf PInf = NaN"
| "fadd NInf NInf = NInf"

section \<open>The IR the lowering builds\<close>

text \<open>
  Modelled from the spec: the IR node types (\<open>ExprHandle\<close>, \<open>BufHandle\<close>, \<open>VarHandle\<close>,
  statements, \<open>Tensor\<close>) are missing from conv2d.cpp; the design document treats them as
  an external layer of buffers, expressions and statements. The datatypes below have one
  constructor for each node the lowering builds. It builds two sorts of \<open>ExprHandle\<close>:
  integer expressions (indices, extents, the boundary mask, the scalar arguments of an
  external call) and \<open>float\<close> expressions (loads, the masked input, the product). They are
  two datatypes here. \<open>IntImm\<close> is an \<open>int\<close> immediate and \<open>LongImm\<close> an \<open>int64_t\<close>
  immediate; a \<open>VarHandle\<close> is its name. \<open>MinE\<close> and \<open>MaxE\<close> are the IR's \<open>Min\<close> and
  \<open>Max\<close>. A buffer is identified by its descriptor.
\<close>

datatype CompareSelectOperation = kEQ | kGT | kGE | kLT | kLE | kNE

datatype iexpr =
    IntImm int
  | LongImm int
  | Var string
  | Add iexpr iexpr
  | Sub iexpr iexpr
  | Mul iexpr iexpr
  | Div iexpr iexpr
  | MinE iexpr iexpr
  | MaxE iexpr iexpr
  | CompareSelect iexpr iexpr iexpr iexpr CompareSelectOperation

datatype ScalarType = kByte | kChar | kShort | kInt | kLong | kHalf | kFloat | kDouble | kBool

record BufHandle =
  name_hint :: string
  buf_dims :: "iexpr list"
  buf_dtype :: ScalarType

text \<open>
  Modelled from the spec: the \<open>float\<close> expressions. The accumulation of a \<open>Sum\<close>
  reduction is \<open>FAdd\<close> of the load of the accumulator and the body.
\<close>

datatype fexpr =
    FloatImm f32
  | Load BufHandle "iexpr list"
  | FMul fexpr fexpr
  | FAdd fexpr fexpr
  | IfThenElse iexpr fexpr fexpr

text \<open>
  Modelled from the spec: statements, "a tree of nested range-loops wrapping the
  statement(s)", and the external call, "a statement naming a fixed external routine
  identifier (string), an ordered list of buffer arguments, and an ordered list of scalar
  integer arguments", bound to its result buffer.
\<close>

datatype stmt =
    Store BufHandle "iexpr list" fexpr
  | For string iexpr iexpr stmt
  | Block "stmt list"
  | ExternalCall BufHandle string "BufHandle list" "iexpr list"

text \<open>
  Modelled from the spec: the "named computation bound to a buffer" pairs an output
  buffer with the statement that defines it.
\<close>

record Tensor =
  buf :: BufHandle
  stmt :: stmt

text \<open>
  What ends a lowering call early: a failed \<open>TORCH_INTERNAL_ASSERT\<close>, \<open>c10::get\<close> on
  the wrong alternative of a variant, an index outside a vector, an integer division by
  zero, \<open>immediateAs\<close> on an expression that is no immediate, and a loop-nest primitive
  called on something that is not a loop of the nest.
\<close>

datatype error =
    InternalAssert
  | BadVariantAccess
  | OutOfRange
  | DivisionByZero
  | UnsupportedDtype
  | MalformedInput

subsection \<open>Evaluation\<close>

fun compare_op :: "CompareSelectOperation \<Rightarrow> int \<Rightarrow> int \<Rightarrow> bool" where
  "compare_op kEQ a b = (a = b)"
| "compare_op kGT a b = (a > b)"
| "compare_op kGE a b = (a \<ge> b)"
| "compare_op kLT a b = (a < b)"
| "compare_op kLE a b = (a \<le> b)"
| "compare_op kNE a b = (a \<noteq> b)"

text \<open>
  Modelled from the spec: the value of an integer expression under a binding of the
  variables (the IR's evaluator is missing). \<open>CompareSelect l r a b op\<close> is \<open>a\<close> where
  \<open>l op r\<close> holds and \<open>b\<close> elsewhere. \<open>Div\<close> is the integer division of C++. A \<open>Div\<close> by
  zero has the value \<open>cdiv x 0 = 0\<close> here; every statement below about the value of a
  \<open>Div\<close> has a divisor that is not zero.
\<close>

fun ieval :: "(string \<Rightarrow> int) \<Rightarrow> iexpr \<Rightarrow> int" where
  "ieval env (IntImm v) = v"
| "ieval env (LongImm v) = v"
| "ieval env (Var x) = env x"
| "ieval env (Add a b) = ieval env a + ieval env b"
| "ieval env (Sub a b) = ieval env a - ieval env b"
| "ieval env (Mul a b) = ieval env a * ieval env b"
| "ieval env (Div a b) = cdiv (ieval env a) (ieval env b)"
| "ieval env (MinE a b) = min (ieval env a) (ieval env b)"
| "ieval env (MaxE a b) = max (ieval env a) (ieval env b)"
| "ieval env (CompareSelect l r a b op) =
     (if compare_op op (ieval env l) (ieval env r) then ieval env a else ieval env b)"

text \<open>
  Modelled from the spec: the value of a \<open>float\<close> expression. The buffers are a function
  from a buffer and an index list to the element. \<open>IfThenElse c t e\<close> is \<open>t\<close> where \<open>c\<close>
  is not zero, a select on data.
\<close>

type_synonym buffers = "BufHandle \<Rightarrow> int list \<Rightarrow> f32"

fun feval :: "(string \<Rightarrow> int) \<Rightarrow> buffers \<Rightarrow> fexpr \<Rightarrow> f32" where
  "feval env m (FloatImm v) = v"
| "feval env m (Load b idx) = m b (map (ieval env) idx)"
| "feval env m (FMul a b) = fmul (feval env m a) (feval env m b)"
| "feval env m (FAdd a b) = fadd (feval env m a) (feval env m b)"
| "feval env m (IfThenElse c t e) = (if ieval env c \<noteq> 0 then feval env m t else feval env m e)"

section \<open>Argument values and the eligibility predicate\<close>

text \<open>
  \<open>ArgValue\<close> is a variant; the alternatives the dispatcher reads are a buffer, an
  \<open>int64_t\<close> and an \<open>IntList\<close>. \<open>ArgOther\<close> stands for every other alternative.
\<close>

datatype ArgValue = ArgBuf BufHandle | ArgInt int | ArgIntList "int list" | ArgOther

text \<open>
  \<open>_pair_int\<close> (conv2d.cpp, 245-251). Reading element 0 or 1 of a shorter list is out of
  range; \<open>c10::get<int64_t>\<close> on another alternative throws.
\<close>

fun pair_int :: "ArgValue \<Rightarrow> error + int list" where
  "pair_int (ArgIntList t) = (if length t < 2 then Inl OutOfRange else Inr [t ! 0, t ! 1])"
| "pair_int (ArgInt i) = Inr [i, i]"
| "pair_int v = Inl BadVariantAccess"

record TensorInfo =
  dims :: "int list"
  dtype :: ScalarType

text \<open>\<open>conv2dIsSupported\<close> (conv2d.cpp, 253-298), check by check in the source's order.\<close>

definition conv2dIsSupported ::
  "TensorInfo \<Rightarrow> TensorInfo \<Rightarrow> TensorInfo \<Rightarrow> int list \<Rightarrow> int list \<Rightarrow> int list \<Rightarrow> int \<Rightarrow> bool" where
  "conv2dIsSupported input weight bias stride pad dilation groups =
     (if dtype input \<noteq> kFloat \<or> dtype weight \<noteq> kFloat \<or> dtype bias \<noteq> kFloat then False
      else if length (dims input) \<noteq> 4 \<or> length (dims weight) \<noteq> 4 \<or> length (dims bias) \<noteq> 1
        then False
      else
        let Cin = dims input ! 1; Cout = dims weight ! 0; CperG = dims weight ! 1 in
        if Cin \<noteq> Cout \<or> Cin \<noteq> groups \<or> CperG \<noteq> 1 then False
        else
          let KH = dims weight ! 2; KW = dims weight ! 3 in
          if KH \<noteq> 3 \<or> KW \<noteq> 3 then False
          else if length stride \<noteq> 2 \<or> stride ! 0 \<noteq> stride ! 1 then False
          else if length pad \<noteq> 2 \<or> pad ! 0 \<noteq> pad ! 1 then False
          else if length dilation \<noteq> 2 \<or> dilation ! 0 \<noteq> 1 \<or> dilation ! 1 \<noteq> 1 then False
          else True)"

section \<open>IR operations the lowering calls\<close>

text \<open>
  The IR layer (expressions, buffers, \<open>Reduce\<close>, \<open>LoopNest\<close>) is not part of
  conv2d.cpp. What the lowering calls of it is modelled here from the design document.
\<close>

text \<open>
  Modelled from the spec: \<open>isConstant\<close> is missing. A dimension is "either a compile-time
  constant or a symbolic expression": the constants are the immediates.
\<close>

fun isConstant :: "iexpr \<Rightarrow> bool" where
  "isConstant (IntImm v) = True"
| "isConstant (LongImm v) = True"
| "isConstant e = False"

text \<open>Modelled from the spec: \<open>intValue\<close> is missing; the value of a constant.\<close>

fun intValue :: "iexpr \<Rightarrow> int option" where
  "intValue (IntImm v) = Some v"
| "intValue (LongImm v) = Some v"
| "intValue e = None"

text \<open>
  Modelled from the spec: \<open>immediateAs<int>\<close> is missing. It converts the value of an
  immediate to \<open>int\<close> and throws on an expression that is not an immediate.
\<close>

fun immediateAs_int :: "iexpr \<Rightarrow> error + int" where
  "immediateAs_int (IntImm v) = Inr v"
| "immediateAs_int (LongImm v) = Inr (int32_of v)"
| "immediateAs_int e = Inl UnsupportedDtype"

text \<open>Modelled from the spec: \<open>BufHandle::ndim\<close> is missing; the rank of the buffer.\<close>

definition ndim :: "BufHandle \<Rightarrow> nat" where
  "ndim b = length (buf_dims b)"

text \<open>Sequencing of calls that can end early: the first error is the result.\<close>

fun bind_err :: "error + 'a \<Rightarrow> ('a \<Rightarrow> error + 'b) \<Rightarrow> error + 'b" where
  "bind_err (Inl e) f = Inl e"
| "bind_err (Inr x) f = f x"

text \<open>Reading element \<open>i\<close> of a \<open>std::vector\<close>; out of range is an error of the model.\<close>

definition nth_checked :: "'a list \<Rightarrow> nat \<Rightarrow> error + 'a" where
  "nth_checked xs i = (if i < length xs then Inr (xs ! i) else Inl OutOfRange)"

text \<open>
  Modelled from the spec: the values of the dimensions where all of them are constants,
  for \<open>getTensorInfo\<close>.
\<close>

fun const_dims :: "iexpr list \<Rightarrow> int list option" where
  "const_dims [] = Some []"
| "const_dims (d # ds) =
     (case intValue d of
        None \<Rightarrow> None
      | Some v \<Rightarrow> (case const_dims ds of None \<Rightarrow> None | Some vs \<Rightarrow> Some (v # vs)))"

text \<open>
  Modelled from the spec: \<open>getTensorInfo\<close> is missing. "Extract static shape/dtype
  metadata ... if available": the metadata is available when every dimension is a
  constant, and is then the list of their values with the buffer's element type.
\<close>

definition getTensorInfo :: "BufHandle \<Rightarrow> TensorInfo option" where
  "getTensorInfo b =
     (case const_dims (buf_dims b) of
        None \<Rightarrow> None
      | Some vs \<Rightarrow> Some \<lparr>dims = vs, dtype = buf_dtype b\<rparr>)"

text \<open>Modelled from the spec: the constructor of a loop; a loop's body is a block.\<close>

fun mk_For :: "string \<Rightarrow> iexpr \<Rightarrow> iexpr \<Rightarrow> stmt \<Rightarrow> stmt" where
  "mk_For v lo hi (Block ss) = For v lo hi (Block ss)"
| "mk_For v lo hi s = For v lo hi (Block [s])"

text \<open>
  Modelled from the spec: the loops of an index space around a statement, outermost
  first, each from 0 to its extent.
\<close>

fun loops_around :: "(iexpr \<times> string) list \<Rightarrow> stmt \<Rightarrow> stmt" where
  "loops_around [] s = s"
| "loops_around ((ext, v) # ds) s = mk_For v (IntImm 0) ext (loops_around ds s)"

text \<open>
  Modelled from the spec: \<open>Reduce\<close> is missing. A reduction has an output index space,
  the combining operator (addition), an initializer and a body; its loop nest is "a tree
  of nested range-loops wrapping the statement(s)" that compute it: the loops of the
  output indices around the store of the initializer followed by the loops of the
  reduction indices around the accumulating store. "The output index-space dimensions
  are exactly the dimensions that survive into the result buffer."
\<close>

definition Reduce ::
  "string \<Rightarrow> (iexpr \<times> string) list \<Rightarrow> (string list \<Rightarrow> fexpr) \<Rightarrow> (string list \<Rightarrow> fexpr) \<Rightarrow>
   (iexpr \<times> string) list \<Rightarrow> Tensor" where
  "Reduce name dim_args init_func body_func reduce_args =
     (let vars = map snd dim_args;
          rvars = map snd reduce_args;
          b = \<lparr>name_hint = name, buf_dims = map fst dim_args, buf_dtype = kFloat\<rparr>;
          idx = map Var vars;
          init = Store b idx (init_func vars);
          acc = Store b idx (FAdd (Load b idx) (body_func (vars @ rvars)))
      in \<lparr>buf = b, stmt = loops_around dim_args (Block [init, loops_around reduce_args acc])\<rparr>)"

text \<open>
  Modelled from the spec: \<open>LoopNest\<close> is missing. The nest is its root statement, a block
  of the tensors' statements.
\<close>

definition LoopNest :: "Tensor list \<Rightarrow> stmt" where
  "LoopNest ts = Block (map stmt ts)"

text \<open>
  Modelled from the spec: a \<open>ForPtr\<close> is the loop's position in the nest, the list of
  child indices, block by block, from the root (a loop's body is entered without an
  index). \<open>stmt_at\<close> is the statement at a position.
\<close>

fun stmt_at :: "stmt \<Rightarrow> nat list \<Rightarrow> stmt option" where
  "stmt_at s [] = Some s"
| "stmt_at (Block ss) (i # p) = (if i < length ss then stmt_at (ss ! i) p else None)"
| "stmt_at (For v lo hi body) (i # p) = stmt_at body (i # p)"
| "stmt_at s (i # p) = None"

text \<open>
  Modelled from the spec: for every statement that writes the buffer, in program order,
  the loops around it, outermost first ("all loop nests that write to the output
  buffer"). \<open>p\<close> is the position of the statement and \<open>ls\<close> the loops around it.
\<close>

fun writes_in :: "BufHandle \<Rightarrow> nat list \<Rightarrow> nat list list \<Rightarrow> stmt \<Rightarrow> nat list list list"
  and writes_in_list ::
    "BufHandle \<Rightarrow> nat list \<Rightarrow> nat \<Rightarrow> nat list list \<Rightarrow> stmt list \<Rightarrow> nat list list list" where
  "writes_in b p ls (Store b' idx e) = (if b' = b then [ls] else [])"
| "writes_in b p ls (ExternalCall b' f bufs args) = (if b' = b then [ls] else [])"
| "writes_in b p ls (For v lo hi body) = writes_in b p (ls @ [p]) body"
| "writes_in b p ls (Block ss) = writes_in_list b p 0 ls ss"
| "writes_in_list b p i ls [] = []"
| "writes_in_list b p i ls (s # ss) = writes_in b (p @ [i]) ls s @ writes_in_list b p (Suc i) ls ss"

text \<open>Modelled from the spec: \<open>getAllLoopNestsWritingToBuf\<close> is missing.\<close>

definition getAllLoopNestsWritingToBuf :: "stmt \<Rightarrow> BufHandle \<Rightarrow> nat list list list" where
  "getAllLoopNestsWritingToBuf rt b = writes_in b [] [] rt"

text \<open>The loops two nests have in common, outermost first.\<close>

fun common_prefix :: "'a list \<Rightarrow> 'a list \<Rightarrow> 'a list" where
  "common_prefix (x # xs) (y # ys) = (if x = y then x # common_prefix xs ys else [])"
| "common_prefix xs ys = []"

text \<open>
  Modelled from the spec: \<open>getLoopStmtsFor\<close> is missing. The loops "wrapping the
  statement(s) that compute a named computation": those around every statement that
  writes the tensor's buffer, outermost first.
\<close>

definition getLoopStmtsFor :: "stmt \<Rightarrow> Tensor \<Rightarrow> nat list list" where
  "getLoopStmtsFor rt t =
     (case getAllLoopNestsWritingToBuf rt (buf t) of
        [] \<Rightarrow> []
      | n # ns \<Rightarrow> foldl common_prefix n ns)"

text \<open>
  Modelled from the spec: the nearest loop around a position, the "immediate parent
  loop" (the position is given reversed).
\<close>

fun parent_loop_rev :: "stmt \<Rightarrow> nat list \<Rightarrow> nat list option" where
  "parent_loop_rev rt [] = None"
| "parent_loop_rev rt (i # rp) =
     (case stmt_at rt (rev rp) of
        Some (For v lo hi body) \<Rightarrow> Some (rev rp)
      | _ \<Rightarrow> parent_loop_rev rt rp)"

text \<open>Modelled from the spec: \<open>getParentLoop\<close> is missing; no parent loop is an error.\<close>

definition getParentLoop :: "stmt \<Rightarrow> nat list \<Rightarrow> error + nat list" where
  "getParentLoop rt p =
     (case parent_loop_rev rt (rev p) of None \<Rightarrow> Inl MalformedInput | Some q \<Rightarrow> Inr q)"

text \<open>
  Modelled from the spec: head slicing, "splitting a loop's iteration range into a short
  boundary sub-range and a longer interior sub-range, each as its own loop". The first
  \<open>factor\<close> iterations (as many as the loop has) go to a loop that precedes the rest.
\<close>

fun slice_head_loop :: "int \<Rightarrow> stmt \<Rightarrow> stmt list" where
  "slice_head_loop factor (For v lo hi body) =
     (let head_end = MinE (Add lo (IntImm factor)) hi
      in [For v lo head_end body, For v head_end hi body])"
| "slice_head_loop factor s = [s]"

text \<open>
  Modelled from the spec: tail slicing. The last \<open>factor\<close> iterations (as many as the loop
  has) go to a loop that follows the rest.
\<close>

fun slice_tail_loop :: "int \<Rightarrow> stmt \<Rightarrow> stmt list" where
  "slice_tail_loop factor (For v lo hi body) =
     (let tail_start = MaxE lo (Sub hi (IntImm factor))
      in [For v lo tail_start body, For v tail_start hi body])"
| "slice_tail_loop factor s = [s]"

text \<open>
  Modelled from the spec: the nest with the statement at a position replaced, in its
  parent block, by a list of statements ("splitting one loop into sequential sibling
  loops").
\<close>

fun splice_at :: "nat list \<Rightarrow> (stmt \<Rightarrow> stmt list) \<Rightarrow> stmt \<Rightarrow> stmt"
  and splice_in :: "nat \<Rightarrow> nat list \<Rightarrow> (stmt \<Rightarrow> stmt list) \<Rightarrow> stmt list \<Rightarrow> stmt list" where
  "splice_at (i # p) g (Block ss) = Block (splice_in i p g ss)"
| "splice_at (i # p) g (For v lo hi body) = For v lo hi (splice_at (i # p) g body)"
| "splice_at p g s = s"
| "splice_in i p g [] = []"
| "splice_in 0 [] g (s # ss) = g s @ ss"
| "splice_in 0 (j # p) g (s # ss) = splice_at (j # p) g s # ss"
| "splice_in (Suc i) p g (s # ss) = s # splice_in i p g ss"

text \<open>The position that follows a position in the same block.\<close>

definition next_sibling :: "nat list \<Rightarrow> nat list" where
  "next_sibling p = butlast p @ [Suc (last p)]"

text \<open>
  Modelled from the spec: \<open>sliceHead\<close> is missing. It returns the new nest with the
  positions of the head and of the tail. A position that is no loop in a block is an
  error.
\<close>

definition sliceHead :: "stmt \<Rightarrow> nat list \<Rightarrow> int \<Rightarrow> error + (stmt \<times> nat list \<times> nat list)" where
  "sliceHead rt f factor =
     (case stmt_at rt f of
        Some (For v lo hi body) \<Rightarrow>
          if f = [] then Inl MalformedInput
          else Inr (splice_at f (slice_head_loop factor) rt, f, next_sibling f)
      | _ \<Rightarrow> Inl MalformedInput)"

text \<open>
  Modelled from the spec: \<open>sliceTail\<close> is missing. It returns the new nest with the
  positions of the head and of the tail.
\<close>

definition sliceTail :: "stmt \<Rightarrow> nat list \<Rightarrow> int \<Rightarrow> error + (stmt \<times> nat list \<times> nat list)" where
  "sliceTail rt f factor =
     (case stmt_at rt f of
        Some (For v lo hi body) \<Rightarrow>
          if f = [] then Inl MalformedInput
          else Inr (splice_at f (slice_tail_loop factor) rt, f, next_sibling f)
      | _ \<Rightarrow> Inl MalformedInput)"

subsection \<open>Running a statement\<close>

text \<open>
  Modelled from the spec: what a statement does to the buffers (the IR's evaluator is
  missing). A loop evaluates its bounds once and runs its body for each value of its
  variable from the start up to, and without, the stop. What an external routine does to
  the buffers is a parameter \<open>X\<close>.
\<close>

type_synonym extern = "string \<Rightarrow> BufHandle \<Rightarrow> BufHandle list \<Rightarrow> int list \<Rightarrow> buffers \<Rightarrow> buffers"

fun exec :: "extern \<Rightarrow> (string \<Rightarrow> int) \<Rightarrow> stmt \<Rightarrow> buffers \<Rightarrow> buffers" where
  "exec X env (Store b idx e) m = m(b := (m b)(map (ieval env) idx := feval env m e))"
| "exec X env (For v lo hi body) m =
     fold (\<lambda>i. exec X (env(v := i)) body) [ieval env lo..ieval env hi - 1] m"
| "exec X env (Block ss) m = fold (exec X env) ss m"
| "exec X env (ExternalCall out f bufs args) m = X f out bufs (map (ieval env) args) m"

section \<open>The masked reduction builder\<close>

text \<open>\<open>assert_dims_constant\<close> (conv2d.cpp, 13-17).\<close>

definition assert_dims_constant :: "BufHandle \<Rightarrow> error + unit" where
  "assert_dims_constant b =
     (if list_all isConstant (buf_dims b) then Inr () else Inl InternalAssert)"

text \<open>
  The body of the reduction in \<open>conv2d_depthwise_static\<close> (conv2d.cpp, 55-72). \<open>v\<close> holds
  the names of the four output and the three reduction variables; \<open>stride\<close>, \<open>pad\<close>, \<open>H\<close>
  and \<open>W\<close> are C++ integers and become immediates.
\<close>

definition static_body ::
  "BufHandle \<Rightarrow> BufHandle \<Rightarrow> int \<Rightarrow> int \<Rightarrow> int \<Rightarrow> int \<Rightarrow> string list \<Rightarrow> fexpr" where
  "static_body input weight stride pad H W v =
     (let n = Var (v ! 0); k = Var (v ! 1); oh = Var (v ! 2); ow = Var (v ! 3);
          c = Var (v ! 4); r = Var (v ! 5); s = Var (v ! 6);
          ih = Add (Sub (Mul oh (IntImm stride)) (IntImm pad)) r;
          iw = Add (Sub (Mul ow (IntImm stride)) (IntImm pad)) s;
          cond1 = CompareSelect ih (IntImm 0) (IntImm 1) (IntImm 0) kLT;
          cond2 = CompareSelect iw (IntImm 0) (IntImm 1) cond1 kLT;
          cond3 = CompareSelect ih (IntImm H) (IntImm 1) cond2 kGE;
          cond4 = CompareSelect iw (IntImm W) (IntImm 1) cond3 kGE;
          inv = IfThenElse cond4 (FloatImm (Finite 0)) (Load input [n, k, ih, iw])
      in FMul inv (Load weight [k, c, r, s]))"

definition kLoopH :: nat where "kLoopH = 2"

definition kLoopW :: nat where "kLoopW = 3"

text \<open>
  The loop specialization of \<open>conv2d_depthwise_static\<close> (conv2d.cpp, 75-95), on the
  nest of the reduction \<open>conv\<close>: the two slicing rules, and the nest as it is where
  neither matches. It returns the root statement of the nest.
\<close>

definition slice_policy :: "Tensor \<Rightarrow> int \<Rightarrow> int \<Rightarrow> int \<Rightarrow> error + stmt" where
  "slice_policy conv R stride pad =
     (let nest = LoopNest [conv] in
      if R = 3 \<and> stride = 2 \<and> pad = 1 then
        bind_err (nth_checked (getLoopStmtsFor nest conv) kLoopW) (\<lambda>lw.
        bind_err (sliceHead nest lw 2) (\<lambda>(nest1, head, tail).
        bind_err (nth_checked (getLoopStmtsFor nest1 conv) kLoopH) (\<lambda>lh.
        bind_err (sliceHead nest1 lh 2) (\<lambda>(nest2, head, tail).
        Inr nest2))))
      else if R = 3 \<and> stride = 1 \<and> pad = 1 then
        bind_err (nth_checked (getAllLoopNestsWritingToBuf nest (buf conv)) 1) (\<lambda>loops1.
        bind_err (nth_checked loops1 kLoopW) (\<lambda>main.
        bind_err (sliceHead nest main 1) (\<lambda>(nest1, peeled, main).
        bind_err (sliceTail nest1 main 1) (\<lambda>(nest2, main, peeled).
        bind_err (getParentLoop nest2 main) (\<lambda>main.
        bind_err (sliceHead nest2 main 1) (\<lambda>(nest3, peeled, main).
        bind_err (sliceTail nest3 main 1) (\<lambda>(nest4, main, peeled).
        Inr nest4)))))))
      else Inr nest)"

text \<open>
  \<open>conv2d_depthwise_static\<close> (conv2d.cpp, 21-98). A failed \<open>TORCH_INTERNAL_ASSERT\<close> is
  \<open>Inl InternalAssert\<close>. The two integer divisions are by \<open>stride\<close> and by \<open>groups\<close>; a
  zero divisor is \<open>Inl DivisionByZero\<close>.
\<close>

definition conv2d_depthwise_static ::
  "BufHandle \<Rightarrow> BufHandle \<Rightarrow> (string list \<Rightarrow> fexpr) \<Rightarrow> int \<Rightarrow> int \<Rightarrow> int \<Rightarrow> error + Tensor" where
  "conv2d_depthwise_static input weight init_func stride pad groups =
     (if ndim input \<noteq> 4 then Inl InternalAssert
      else if ndim weight \<noteq> 4 then Inl InternalAssert
      else
        bind_err (assert_dims_constant input) (\<lambda>_.
        bind_err (assert_dims_constant weight) (\<lambda>_.
        bind_err (immediateAs_int (buf_dims input ! 0)) (\<lambda>N.
        bind_err (immediateAs_int (buf_dims input ! 1)) (\<lambda>C.
        bind_err (immediateAs_int (buf_dims input ! 2)) (\<lambda>H.
        bind_err (immediateAs_int (buf_dims input ! 3)) (\<lambda>W.
        bind_err (immediateAs_int (buf_dims weight ! 0)) (\<lambda>K.
        bind_err (immediateAs_int (buf_dims weight ! 1)) (\<lambda>CperG.
        bind_err (immediateAs_int (buf_dims weight ! 2)) (\<lambda>R.
        bind_err (immediateAs_int (buf_dims weight ! 3)) (\<lambda>S.
        if \<not> (C = K \<and> K = groups \<and> CperG = 1) then Inl InternalAssert
        else if R \<noteq> S then Inl InternalAssert
        else if stride = 0 \<or> groups = 0 then Inl DivisionByZero
        else
          let OH = cdiv (H - R + 2 * pad) stride + 1;
              OW = cdiv (W - S + 2 * pad) stride + 1;
              conv = Reduce ''conv2d_depthwise''
                [(IntImm N, ''n''), (IntImm K, ''k''), (IntImm OH, ''oh''), (IntImm OW, ''ow'')]
                init_func
                (static_body input weight stride pad H W)
                [(IntImm (cdiv C groups), ''c''), (IntImm R, ''r''), (IntImm S, ''s'')]
          in
          bind_err (slice_policy conv R stride pad)
            (\<lambda>nest. Inr \<lparr>buf = buf conv, stmt = nest\<rparr>))))))))))))"

text \<open>
  The body of the reduction in \<open>conv2d_depthwise_dynamic\<close> (conv2d.cpp, 126-143): the
  same expression, with \<open>stride\<close>, \<open>pad\<close>, \<open>H\<close> and \<open>W\<close> symbolic.
\<close>

definition dynamic_body ::
  "BufHandle \<Rightarrow> BufHandle \<Rightarrow> iexpr \<Rightarrow> iexpr \<Rightarrow> iexpr \<Rightarrow> iexpr \<Rightarrow> string list \<Rightarrow> fexpr" where
  "dynamic_body input weight stride pad H W v =
     (let n = Var (v ! 0); k = Var (v ! 1); oh = Var (v ! 2); ow = Var (v ! 3);
          c = Var (v ! 4); r = Var (v ! 5); s = Var (v ! 6);
          ih = Add (Sub (Mul oh stride) pad) r;
          iw = Add (Sub (Mul ow stride) pad) s;
          cond1 = CompareSelect ih (IntImm 0) (IntImm 1) (IntImm 0) kLT;
          cond2 = CompareSelect iw (IntImm 0) (IntImm 1) cond1 kLT;
          cond3 = CompareSelect ih H (IntImm 1) cond2 kGE;
          cond4 = CompareSelect iw W (IntImm 1) cond3 kGE;
          inv = IfThenElse cond4 (FloatImm (Finite 0)) (Load input [n, k, ih, iw])
      in FMul inv (Load weight [k, c, r, s]))"

text \<open>\<open>conv2d_depthwise_dynamic\<close> (conv2d.cpp, 100-145).\<close>

definition conv2d_depthwise_dynamic ::
  "BufHandle \<Rightarrow> BufHandle \<Rightarrow> (string list \<Rightarrow> fexpr) \<Rightarrow> iexpr \<Rightarrow> iexpr \<Rightarrow> iexpr \<Rightarrow> iexpr \<Rightarrow>
   iexpr \<Rightarrow> iexpr \<Rightarrow> iexpr \<Rightarrow> iexpr \<Rightarrow> iexpr \<Rightarrow> iexpr \<Rightarrow> iexpr \<Rightarrow> error + Tensor" where
  "conv2d_depthwise_dynamic input weight init_func N C H W K CperG R S stride pad groups =
     (if ndim input \<noteq> 4 then Inl InternalAssert
      else if ndim weight \<noteq> 4 then Inl InternalAssert
      else
        let OH = Add (Div (Add (Sub H R) (Mul pad (IntImm 2))) stride) (IntImm 1);
            OW = Add (Div (Add (Sub W S) (Mul pad (IntImm 2))) stride) (IntImm 1)
        in Inr (Reduce ''conv2d_depthwise''
             [(N, ''n''), (K, ''k''), (OH, ''oh''), (OW, ''ow'')]
             init_func
             (dynamic_body input weight stride pad H W)
             [(Div C groups, ''c''), (R, ''r''), (S, ''s'')]))"

text \<open>
  The four overloads of \<open>conv2d_depthwise\<close> (conv2d.cpp, 149-243): static with and without
  bias, dynamic with and without bias. \<open>Sum().initializer()\<close> is the constant 0.
\<close>

definition conv2d_depthwise_bias ::
  "BufHandle \<Rightarrow> BufHandle \<Rightarrow> BufHandle \<Rightarrow> int \<Rightarrow> int \<Rightarrow> int \<Rightarrow> error + Tensor" where
  "conv2d_depthwise_bias input weight bias stride pad groups =
     bind_err (assert_dims_constant bias) (\<lambda>_.
       conv2d_depthwise_static input weight (\<lambda>v. Load bias [Var (v ! 1)]) stride pad groups)"

definition conv2d_depthwise_nobias ::
  "BufHandle \<Rightarrow> BufHandle \<Rightarrow> int \<Rightarrow> int \<Rightarrow> int \<Rightarrow> error + Tensor" where
  "conv2d_depthwise_nobias input weight stride pad groups =
     conv2d_depthwise_static input weight (\<lambda>v. FloatImm (Finite 0)) stride pad groups"

definition conv2d_depthwise_dyn_bias ::
  "BufHandle \<Rightarrow> BufHandle \<Rightarrow> BufHandle \<Rightarrow> iexpr \<Rightarrow> iexpr \<Rightarrow> iexpr \<Rightarrow> iexpr \<Rightarrow>
   iexpr \<Rightarrow> iexpr \<Rightarrow> iexpr \<Rightarrow> iexpr \<Rightarrow> iexpr \<Rightarrow> iexpr \<Rightarrow> iexpr \<Rightarrow> error + Tensor" where
  "conv2d_depthwise_dyn_bias input weight bias N C H W K CperG R S stride pad groups =
     bind_err (assert_dims_constant bias) (\<lambda>_.
       conv2d_depthwise_dynamic input weight (\<lambda>v. Load bias [Var (v ! 1)])
         N C H W K CperG R S stride pad groups)"

definition conv2d_depthwise_dyn_nobias ::
  "BufHandle \<Rightarrow> BufHandle \<Rightarrow> iexpr \<Rightarrow> iexpr \<Rightarrow> iexpr \<Rightarrow> iexpr \<Rightarrow>
   iexpr \<Rightarrow> iexpr \<Rightarrow> iexpr \<Rightarrow> iexpr \<Rightarrow> iexpr \<Rightarrow> iexpr \<Rightarrow> iexpr \<Rightarrow> error + Tensor" where
  "conv2d_depthwise_dyn_nobias input weight N C H W K CperG R S stride pad groups =
     conv2d_depthwise_dynamic input weight (\<lambda>v. FloatImm (Finite 0))
       N C H W K CperG R S stride pad groups"

section \<open>The dispatcher\<close>

fun get_BufHandle :: "ArgValue \<Rightarrow> error + BufHandle" where
  "get_BufHandle (ArgBuf b) = Inr b"
| "get_BufHandle v = Inl BadVariantAccess"

fun get_int64 :: "ArgValue \<Rightarrow> error + int" where
  "get_int64 (ArgInt i) = Inr i"
| "get_int64 v = Inl BadVariantAccess"

text \<open>
  \<open>computeConv2d\<close> (conv2d.cpp, 300-345). The \<open>device\<close> parameter is not read and is left
  out. \<open>groups\<close> is narrowed to \<open>int\<close>, and so are \<open>strides[0]\<close> and \<open>padding[0]\<close> where
  they are passed to \<open>conv2d_depthwise\<close>; the scalar arguments of the external call are
  six \<open>int64_t\<close> immediates and the \<open>int\<close> immediate of \<open>groups\<close>.
\<close>

definition computeConv2d :: "ArgValue list \<Rightarrow> iexpr list \<Rightarrow> ScalarType option \<Rightarrow> error + Tensor" where
  "computeConv2d inputs outputShape outputType =
     (let dtype = (case outputType of None \<Rightarrow> kFloat | Some t \<Rightarrow> t);
          ResultBuf = \<lparr>name_hint = ''conv'', buf_dims = outputShape, buf_dtype = dtype\<rparr>
      in
      bind_err (bind_err (nth_checked inputs 0) get_BufHandle) (\<lambda>inp.
      bind_err (bind_err (nth_checked inputs 1) get_BufHandle) (\<lambda>w.
      bind_err (bind_err (nth_checked inputs 2) get_BufHandle) (\<lambda>b.
      bind_err (bind_err (nth_checked inputs 3) pair_int) (\<lambda>strides.
      bind_err (bind_err (nth_checked inputs 4) pair_int) (\<lambda>padding.
      bind_err (bind_err (nth_checked inputs 5) pair_int) (\<lambda>dilation.
      bind_err (bind_err (nth_checked inputs 6) get_int64) (\<lambda>g.
      let groups = int32_of g;
          fallback = Inr \<lparr>buf = ResultBuf,
            stmt = ExternalCall ResultBuf ''nnc_aten_conv2d'' [inp, w, b]
              [LongImm (strides ! 0), LongImm (strides ! 1),
               LongImm (padding ! 0), LongImm (padding ! 1),
               LongImm (dilation ! 0), LongImm (dilation ! 1),
               IntImm groups]\<rparr>
      in
      case (getTensorInfo inp, getTensorInfo w, getTensorInfo b) of
        (Some inpInfo, Some wInfo, Some bInfo) \<Rightarrow>
          if conv2dIsSupported inpInfo wInfo bInfo strides padding dilation groups
          then conv2d_depthwise_bias inp w b (int32_of (strides ! 0)) (int32_of (padding ! 0)) groups
          else fallback
      | _ \<Rightarrow> fallback))))))))"

section \<open>The concrete scenario of the design document\<close>

text \<open>Input of shape [1, 4, 8, 8], weight [4, 1, 3, 3] and bias [4], all float32.\<close>

abbreviation ex_input :: BufHandle where
  "ex_input \<equiv>
     \<lparr>name_hint = ''input'', buf_dims = [IntImm 1, IntImm 4, IntImm 8, IntImm 8],
      buf_dtype = kFloat\<rparr>"

abbreviation ex_weight :: BufHandle where
  "ex_weight \<equiv>
     \<lparr>name_hint = ''weight'', buf_dims = [IntImm 4, IntImm 1, IntImm 3, IntImm 3],
      buf_dtype = kFloat\<rparr>"

abbreviation ex_bias :: BufHandle where
  "ex_bias \<equiv> \<lparr>name_hint = ''bias'', buf_dims = [IntImm 4], buf_dtype = kFloat\<rparr>"


text \<open>Buffers whose dimensions are all symbolic.\<close>

abbreviation ex_symbolic_input :: BufHandle where
  "ex_symbolic_input \<equiv>
     \<lparr>name_hint = ''input'', buf_dims = [Var ''N'', Var ''C'', Var ''H'', Var ''W''],
      buf_dtype = kFloat\<rparr>"

abbreviation ex_symbolic_weight :: BufHandle where
  "ex_symbolic_weight \<equiv>
     \<lparr>name_hint = ''weight'', buf_dims = [Var ''K'', Var ''CperG'', Var ''R'', Var ''S''],
      buf_dtype = kFloat\<rparr>"

abbreviation ex_symbolic_bias :: BufHandle where
  "ex_symbolic_bias \<equiv> \<lparr>name_hint = ''bias'', buf_dims = [Var ''K''], buf_dtype = kFloat\<rparr>"

section \<open>Lemmas on the IR operations\<close>

subsection \<open>The nest of a reduction and the result of the slicing rules\<close>

lemma Reduce_nest:
  "Reduce nm [(eN, n), (eK, k), (eOH, oh), (eOW, ow)] init body [(eC, c), (eR, r), (eS, s)] =
     (let b = \<lparr>name_hint = nm, buf_dims = [eN, eK, eOH, eOW], buf_dtype = kFloat\<rparr>;
          idx = [Var n, Var k, Var oh, Var ow]
      in \<lparr>buf = b,
          stmt = For n (IntImm 0) eN (Block [For k (IntImm 0) eK (Block [For oh (IntImm 0) eOH (Block
            [For ow (IntImm 0) eOW (Block
              [Store b idx (init [n, k, oh, ow]),
               For c (IntImm 0) eC (Block [For r (IntImm 0) eR (Block [For s (IntImm 0) eS (Block
                 [Store b idx (FAdd (Load b idx) (body [n, k, oh, ow, c, r, s]))])])])])])])])\<rparr>)"
  by (simp add: Reduce_def Let_def)

lemma slice_policy_no_rule:
  "\<not> (R = 3 \<and> stride = 2 \<and> pad = 1) \<Longrightarrow> \<not> (R = 3 \<and> stride = 1 \<and> pad = 1) \<Longrightarrow>
   slice_policy conv R stride pad = Inr (LoopNest [conv])"
  by (auto simp: slice_policy_def Let_def)

lemma slice_policy_rule_A:
  "slice_policy \<lparr>buf = b, stmt = For n lo0 eN (Block [For k lo1 eK (Block [For oh lo2 eOH (Block
            [For ow lo3 eOW (Block
              [Store b idx i0,
               For c lo4 eC (Block [For r lo5 eR (Block [For s lo6 eS (Block
                 [Store b idx a0])])])])])])])\<rparr> 3 2 1 =
   (let inner = Block
              [Store b idx i0,
               For c lo4 eC (Block [For r lo5 eR (Block [For s lo6 eS (Block
                 [Store b idx a0])])])];
        wm = MinE (Add lo3 (IntImm 2)) eOW;
        hm = MinE (Add lo2 (IntImm 2)) eOH;
        ows = Block [For ow lo3 wm inner, For ow wm eOW inner]
    in Inr (Block [For n lo0 eN (Block [For k lo1 eK (Block
         [For oh lo2 hm ows, For oh hm eOH ows])])]))"
  by (simp add: slice_policy_def Let_def LoopNest_def getLoopStmtsFor_def
      getAllLoopNestsWritingToBuf_def nth_checked_def kLoopW_def kLoopH_def sliceHead_def
      next_sibling_def)

lemma slice_policy_rule_B:
  "slice_policy \<lparr>buf = b, stmt = For n lo0 eN (Block [For k lo1 eK (Block [For oh lo2 eOH (Block
            [For ow lo3 eOW (Block
              [Store b idx i0,
               For c lo4 eC (Block [For r lo5 eR (Block [For s lo6 eS (Block
                 [Store b idx a0])])])])])])])\<rparr> 3 1 1 =
   (let inner = Block
              [Store b idx i0,
               For c lo4 eC (Block [For r lo5 eR (Block [For s lo6 eS (Block
                 [Store b idx a0])])])];
        w1 = MinE (Add lo3 (IntImm 1)) eOW;
        w2 = MaxE w1 (Sub eOW (IntImm 1));
        h1 = MinE (Add lo2 (IntImm 1)) eOH;
        h2 = MaxE h1 (Sub eOH (IntImm 1));
        ows = Block [For ow lo3 w1 inner, For ow w1 w2 inner, For ow w2 eOW inner]
    in Inr (Block [For n lo0 eN (Block [For k lo1 eK (Block
         [For oh lo2 h1 ows, For oh h1 h2 ows, For oh h2 eOH ows])])]))"
  by (simp add: slice_policy_def Let_def LoopNest_def getLoopStmtsFor_def
      getAllLoopNestsWritingToBuf_def nth_checked_def kLoopW_def kLoopH_def sliceHead_def
      sliceTail_def getParentLoop_def next_sibling_def)

subsection \<open>Slicing preserves what a nest computes\<close>

lemma upto_cut:
  fixes lo mid hi :: int
  assumes "lo \<le> mid" and "mid \<le> hi"
  shows "[lo..mid - 1] @ [mid..hi - 1] = [lo..hi - 1]"
proof (cases "mid = hi")
  case True
  then show ?thesis by simp
next
  case False
  with assms have "mid \<le> hi - 1" by simp
  from upto_split1 [OF assms(1) this] show ?thesis by simp
qed

lemma exec_For_cut:
  assumes "ieval env mid = c" and "(ieval env lo \<le> c \<and> c \<le> ieval env hi) \<or> (ieval env hi < ieval env lo \<and> (c = ieval env hi \<or> c = ieval env lo))"
  shows "exec X env (For v mid hi body) (exec X env (For v lo mid body) m) = exec X env (For v lo hi body) m"
proof -
  let ?g = "\<lambda>i. exec X (env(v := i)) body"
  have "[ieval env lo..c - 1] @ [c..ieval env hi - 1] = [ieval env lo..ieval env hi - 1]"
    using assms(2) by (auto simp: upto_cut)
  then have "fold ?g [ieval env lo..ieval env hi - 1] m =
      fold ?g [c..ieval env hi - 1] (fold ?g [ieval env lo..c - 1] m)"
    by (metis fold_append comp_apply)
  then show ?thesis by (simp add: assms(1))
qed

lemma exec_slice_head_loop:
  assumes "0 \<le> factor"
  shows "fold (exec X env) (slice_head_loop factor s) m = exec X env s m"
proof (cases s)
  case (For v lo hi body)
  show ?thesis
    unfolding For slice_head_loop.simps Let_def fold_simps id_apply comp_apply
    by (rule exec_For_cut [where c = "min (ieval env lo + factor) (ieval env hi)"])
       (use assms in auto)
qed simp_all

lemma exec_slice_tail_loop:
  assumes "0 \<le> factor"
  shows "fold (exec X env) (slice_tail_loop factor s) m = exec X env s m"
proof (cases s)
  case (For v lo hi body)
  show ?thesis
    unfolding For slice_tail_loop.simps Let_def fold_simps id_apply comp_apply
    by (rule exec_For_cut [where c = "max (ieval env lo) (ieval env hi - factor)"])
       (use assms in auto)
qed simp_all

lemma exec_Block_fun: "exec X env (Block ss) = fold (exec X env) ss"
  by (rule ext) simp

lemma exec_For_fun:
  "exec X env (For v lo hi body) =
     fold (\<lambda>i. exec X (env(v := i)) body) [ieval env lo..ieval env hi - 1]"
  by (rule ext) simp

lemma exec_splice:
  assumes g: "\<And>s env. fold (exec X env) (g s) = exec X env s"
  shows "exec X env (splice_at p g s) = exec X env s"
    and "fold (exec X env) (splice_in i p g ss) = fold (exec X env) ss"
  using g
  by (induction p g s and i p g ss arbitrary: env and env rule: splice_at_splice_in.induct)
     (simp_all add: exec_Block_fun exec_For_fun)

lemma exec_sliceHead:
  assumes "sliceHead rt f factor = Inr (rt', h, t)" and "0 \<le> factor"
  shows "exec X env rt' m = exec X env rt m"
proof -
  from assms(1) have "rt' = splice_at f (slice_head_loop factor) rt"
    by (auto simp: sliceHead_def split: option.splits stmt.splits if_splits)
  then show ?thesis
    using exec_splice(1) [of X "slice_head_loop factor"] exec_slice_head_loop [OF assms(2)]
    by (simp add: fun_eq_iff)
qed

lemma exec_sliceTail:
  assumes "sliceTail rt f factor = Inr (rt', h, t)" and "0 \<le> factor"
  shows "exec X env rt' m = exec X env rt m"
proof -
  from assms(1) have "rt' = splice_at f (slice_tail_loop factor) rt"
    by (auto simp: sliceTail_def split: option.splits stmt.splits if_splits)
  then show ?thesis
    using exec_splice(1) [of X "slice_tail_loop factor"] exec_slice_tail_loop [OF assms(2)]
    by (simp add: fun_eq_iff)
qed

lemma bind_err_Inr:
  "bind_err x f = Inr y \<longleftrightarrow> (\<exists>a. x = Inr a \<and> f a = Inr y)"
  by (cases x) simp_all

lemma exec_slice_policy:
  assumes "slice_policy conv R stride pad = Inr rt"
  shows "exec X env rt m = exec X env (LoopNest [conv]) m"
proof -
  consider (A) "R = 3 \<and> stride = 2 \<and> pad = 1"
    | (B) "R = 3 \<and> stride = 1 \<and> pad = 1"
    | (N) "\<not> (R = 3 \<and> stride = 2 \<and> pad = 1)" "\<not> (R = 3 \<and> stride = 1 \<and> pad = 1)"
    by blast
  then show ?thesis
  proof cases
    case A
    with assms obtain lw nest1 h1 t1 lh h2 t2 where
      1: "sliceHead (LoopNest [conv]) lw 2 = Inr (nest1, h1, t1)" and
      2: "sliceHead nest1 lh 2 = Inr (rt, h2, t2)"
      by (auto simp: slice_policy_def Let_def bind_err_Inr)
    show ?thesis
      using exec_sliceHead [OF 1, of X env m] exec_sliceHead [OF 2, of X env m] by simp
  next
    case B
    with assms obtain l1 nest1 h1 t1 nest2 h2 t2 l2 nest3 h3 t3 h4 t4 where
      1: "sliceHead (LoopNest [conv]) l1 1 = Inr (nest1, h1, t1)" and
      2: "sliceTail nest1 t1 1 = Inr (nest2, h2, t2)" and
      3: "sliceHead nest2 l2 1 = Inr (nest3, h3, t3)" and
      4: "sliceTail nest3 t3 1 = Inr (rt, h4, t4)"
      by (auto simp: slice_policy_def Let_def bind_err_Inr)
    show ?thesis
      using exec_sliceHead [OF 1, of X env m] exec_sliceTail [OF 2, of X env m]
        exec_sliceHead [OF 3, of X env m] exec_sliceTail [OF 4, of X env m] by simp
  next
    case N
    with assms show ?thesis by (auto simp: slice_policy_def Let_def)
  qed
qed

subsection \<open>The static builder on constant shapes\<close>

lemma immediateAs_int_isConstant: "immediateAs_int d = Inr v \<Longrightarrow> isConstant d"
  by (cases d) simp_all

lemma four_immediates:
  assumes "map immediateAs_int ds = [Inr a, Inr b, Inr c, Inr d]"
  shows "length ds = 4" and "list_all isConstant ds"
    and "immediateAs_int (ds ! 0) = Inr a" and "immediateAs_int (ds ! 1) = Inr b"
    and "immediateAs_int (ds ! 2) = Inr c" and "immediateAs_int (ds ! 3) = Inr d"
proof -
  from assms obtain d0 d1 d2 d3 where ds: "ds = [d0, d1, d2, d3]"
    and v: "immediateAs_int d0 = Inr a" "immediateAs_int d1 = Inr b"
      "immediateAs_int d2 = Inr c" "immediateAs_int d3 = Inr d"
    by (auto simp: map_eq_Cons_conv)
  show "length ds = 4" by (simp add: ds)
  show "list_all isConstant ds" using v by (simp add: ds immediateAs_int_isConstant)
  show "immediateAs_int (ds ! 0) = Inr a" "immediateAs_int (ds ! 1) = Inr b"
    "immediateAs_int (ds ! 2) = Inr c" "immediateAs_int (ds ! 3) = Inr d"
    using v by (simp_all add: ds)
qed

lemma conv2d_depthwise_static_unfold:
  assumes "map immediateAs_int (buf_dims input) = [Inr N, Inr C, Inr H, Inr W]"
    and "map immediateAs_int (buf_dims weight) = [Inr K, Inr CperG, Inr R, Inr S]"
  shows "conv2d_depthwise_static input weight init_func stride pad groups =
     (if \<not> (C = K \<and> K = groups \<and> CperG = 1) then Inl InternalAssert
      else if R \<noteq> S then Inl InternalAssert
      else if stride = 0 \<or> groups = 0 then Inl DivisionByZero
      else
        let conv = Reduce ''conv2d_depthwise''
              [(IntImm N, ''n''), (IntImm K, ''k''),
               (IntImm (cdiv (H - R + 2 * pad) stride + 1), ''oh''),
               (IntImm (cdiv (W - S + 2 * pad) stride + 1), ''ow'')]
              init_func
              (static_body input weight stride pad H W)
              [(IntImm (cdiv C groups), ''c''), (IntImm R, ''r''), (IntImm S, ''s'')]
        in bind_err (slice_policy conv R stride pad) (\<lambda>nest. Inr \<lparr>buf = buf conv, stmt = nest\<rparr>))"
  using four_immediates [OF assms(1)] four_immediates [OF assms(2)]
  by (simp add: conv2d_depthwise_static_def ndim_def assert_dims_constant_def Let_def)

lemma slice_policy_Reduce_total:
  "\<exists>rt. slice_policy (Reduce nm [(eN, n), (eK, k), (eOH, oh), (eOW, ow)] init body
           [(eC, c), (eR, r), (eS, s)]) R stride pad = Inr rt"
proof -
  consider (A) "R = 3 \<and> stride = 2 \<and> pad = 1"
    | (B) "R = 3 \<and> stride = 1 \<and> pad = 1"
    | (N) "\<not> (R = 3 \<and> stride = 2 \<and> pad = 1)" "\<not> (R = 3 \<and> stride = 1 \<and> pad = 1)"
    by blast
  then show ?thesis
  proof cases
    case A
    then show ?thesis by (simp add: Reduce_nest Let_def slice_policy_rule_A)
  next
    case B
    then show ?thesis by (simp add: Reduce_nest Let_def slice_policy_rule_B)
  next
    case N
    then show ?thesis by (simp add: slice_policy_no_rule)
  qed
qed

lemma conv2d_depthwise_static_total:
  assumes "map immediateAs_int (buf_dims input) = [Inr N, Inr C, Inr H, Inr W]"
    and "map immediateAs_int (buf_dims weight) = [Inr K, Inr CperG, Inr R, Inr S]"
    and "C = K" and "K = groups" and "CperG = 1" and "R = S"
    and "stride \<noteq> 0" and "groups \<noteq> 0"
  shows "\<exists>rt. slice_policy (Reduce ''conv2d_depthwise''
              [(IntImm N, ''n''), (IntImm K, ''k''),
               (IntImm (cdiv (H - R + 2 * pad) stride + 1), ''oh''),
               (IntImm (cdiv (W - S + 2 * pad) stride + 1), ''ow'')]
              init_func
              (static_body input weight stride pad H W)
              [(IntImm (cdiv C groups), ''c''), (IntImm R, ''r''), (IntImm S, ''s'')]) R stride pad = Inr rt \<and>
      conv2d_depthwise_static input weight init_func stride pad groups =
        Inr \<lparr>buf = \<lparr>name_hint = ''conv2d_depthwise'',
                     buf_dims = [IntImm N, IntImm K,
                       IntImm (cdiv (H - R + 2 * pad) stride + 1),
                       IntImm (cdiv (W - S + 2 * pad) stride + 1)],
                     buf_dtype = kFloat\<rparr>,
             stmt = rt\<rparr>"
proof -
  let ?conv = "Reduce ''conv2d_depthwise''
              [(IntImm N, ''n''), (IntImm K, ''k''),
               (IntImm (cdiv (H - R + 2 * pad) stride + 1), ''oh''),
               (IntImm (cdiv (W - S + 2 * pad) stride + 1), ''ow'')]
              init_func
              (static_body input weight stride pad H W)
              [(IntImm (cdiv C groups), ''c''), (IntImm R, ''r''), (IntImm S, ''s'')]"
  obtain rt where rt: "slice_policy ?conv R stride pad = Inr rt"
    by (rule exE [OF slice_policy_Reduce_total])
  have b: "buf ?conv = \<lparr>name_hint = ''conv2d_depthwise'',
                     buf_dims = [IntImm N, IntImm K,
                       IntImm (cdiv (H - R + 2 * pad) stride + 1),
                       IntImm (cdiv (W - S + 2 * pad) stride + 1)],
                     buf_dtype = kFloat\<rparr>"
    by (simp add: Reduce_def Let_def)
  show ?thesis
    unfolding conv2d_depthwise_static_unfold [OF assms(1,2)] Let_def rt b
    using assms(3-8) by simp
qed

subsection \<open>Static metadata and the dispatcher\<close>

lemma int32_of_idem: "int32_of (int32_of x) = int32_of x"
  by (simp add: int32_of_def)

lemma int32_of_small: "int32_of 1 = 1" "int32_of 3 = 3"
  by (simp_all add: int32_of_def)

lemma intValue_immediateAs:
  assumes "intValue d = Some v"
  shows "isConstant d" and "immediateAs_int d = Inr v \<or> immediateAs_int d = Inr (int32_of v)"
  using assms by (cases d; simp)+

lemma const_dims_Some:
  "const_dims ds = Some vs \<Longrightarrow> list_all2 (\<lambda>d v. intValue d = Some v) ds vs"
  by (induction ds arbitrary: vs) (auto split: option.splits)

lemma const_dims_constant:
  "const_dims ds = Some vs \<Longrightarrow> list_all isConstant ds"
  by (induction ds arbitrary: vs) (auto split: option.splits simp: intValue_immediateAs(1))

lemma getTensorInfo_Some:
  assumes "getTensorInfo b = Some info"
  shows "const_dims (buf_dims b) = Some (dims info)" and "dtype info = buf_dtype b"
  using assms by (auto simp: getTensorInfo_def split: option.splits)

lemma const_dims_four:
  assumes "const_dims ds = Some vs" and "length vs = 4"
  shows "\<exists>a b c d. map immediateAs_int ds = [Inr a, Inr b, Inr c, Inr d] \<and>
           (a = vs ! 0 \<or> a = int32_of (vs ! 0)) \<and> (b = vs ! 1 \<or> b = int32_of (vs ! 1)) \<and>
           (c = vs ! 2 \<or> c = int32_of (vs ! 2)) \<and> (d = vs ! 3 \<or> d = int32_of (vs ! 3))"
proof -
  from assms(2) obtain v0 v1 v2 v3 where vs: "vs = [v0, v1, v2, v3]"
    by (auto simp: length_Suc_conv numeral_eq_Suc)
  from const_dims_Some [OF assms(1)] obtain d0 d1 d2 d3 where ds: "ds = [d0, d1, d2, d3]"
    and i: "intValue d0 = Some v0" "intValue d1 = Some v1" "intValue d2 = Some v2"
      "intValue d3 = Some v3"
    unfolding vs by (auto simp: list_all2_Cons2)
  show ?thesis
    using intValue_immediateAs(2) [OF i(1)] intValue_immediateAs(2) [OF i(2)]
      intValue_immediateAs(2) [OF i(3)] intValue_immediateAs(2) [OF i(4)]
    unfolding ds vs by auto
qed

lemma conv2dIsSupported_checks:
  "conv2dIsSupported input weight bias stride pad dilation groups \<longleftrightarrow>
     (dtype input = kFloat \<and> dtype weight = kFloat \<and> dtype bias = kFloat) \<and>
     (length (dims input) = 4 \<and> length (dims weight) = 4 \<and> length (dims bias) = 1) \<and>
     (dims input ! 1 = dims weight ! 0 \<and> dims input ! 1 = groups \<and> dims weight ! 1 = 1) \<and>
     (dims weight ! 2 = 3 \<and> dims weight ! 3 = 3) \<and>
     (length stride = 2 \<and> stride ! 0 = stride ! 1) \<and>
     (length pad = 2 \<and> pad ! 0 = pad ! 1) \<and>
     (length dilation = 2 \<and> dilation ! 0 = 1 \<and> dilation ! 1 = 1)"
  unfolding conv2dIsSupported_def Let_def by auto

lemma computeConv2d_args:
  assumes "7 \<le> length inputs"
    and "inputs ! 0 = ArgBuf inp" and "inputs ! 1 = ArgBuf w" and "inputs ! 2 = ArgBuf b"
    and "pair_int (inputs ! 3) = Inr strides"
    and "pair_int (inputs ! 4) = Inr padding"
    and "pair_int (inputs ! 5) = Inr dilation"
    and "inputs ! 6 = ArgInt g"
  shows "computeConv2d inputs outputShape outputType =
     (let ResultBuf = \<lparr>name_hint = ''conv'', buf_dims = outputShape,
            buf_dtype = (case outputType of None \<Rightarrow> kFloat | Some t \<Rightarrow> t)\<rparr>;
          fallback = Inr \<lparr>buf = ResultBuf,
              stmt = ExternalCall ResultBuf ''nnc_aten_conv2d'' [inp, w, b]
                [LongImm (strides ! 0), LongImm (strides ! 1),
                 LongImm (padding ! 0), LongImm (padding ! 1),
                 LongImm (dilation ! 0), LongImm (dilation ! 1),
                 IntImm (int32_of g)]\<rparr>
      in case (getTensorInfo inp, getTensorInfo w, getTensorInfo b) of
        (Some inpInfo, Some wInfo, Some bInfo) \<Rightarrow>
          if conv2dIsSupported inpInfo wInfo bInfo strides padding dilation (int32_of g)
          then conv2d_depthwise_bias inp w b (int32_of (strides ! 0)) (int32_of (padding ! 0)) (int32_of g)
          else fallback
      | _ \<Rightarrow> fallback)"
proof -
  have n: "nth_checked inputs 0 = Inr (ArgBuf inp)" "nth_checked inputs 1 = Inr (ArgBuf w)"
    "nth_checked inputs 2 = Inr (ArgBuf b)" "nth_checked inputs 3 = Inr (inputs ! 3)"
    "nth_checked inputs 4 = Inr (inputs ! 4)" "nth_checked inputs 5 = Inr (inputs ! 5)"
    "nth_checked inputs 6 = Inr (ArgInt g)"
    using assms(1,2,3,4,8) by (auto simp: nth_checked_def)
  show ?thesis
    unfolding computeConv2d_def n assms(5,6,7) bind_err.simps get_BufHandle.simps get_int64.simps
      Let_def
    by (rule refl)
qed

subsection \<open>Truncating and flooring division\<close>

lemma cdiv_eq_div:
  assumes "(0 \<le> a \<and> 0 < b) \<or> (b \<noteq> 0 \<and> b dvd a)"
  shows "cdiv a b = a div b"
  using assms
proof
  assume "0 \<le> a \<and> 0 < b"
  then show ?thesis by (cases "a = 0") (simp_all add: cdiv_def)
next
  assume "b \<noteq> 0 \<and> b dvd a"
  then obtain k where a: "a = b * k" and b: "b \<noteq> 0" by (auto elim: dvdE)
  have "sgn b * sgn b = 1" using b by (simp add: sgn_mult_self_eq)
  then have "sgn (b * k) * sgn b * (\<bar>b * k\<bar> div \<bar>b\<bar>) = sgn k * \<bar>k\<bar>"
    using b by (simp add: sgn_mult abs_mult mult.commute mult.left_commute)
  then show ?thesis using b by (simp add: cdiv_def a mult_sgn_abs)
qed

subsection \<open>The two bodies\<close>

lemma dynamic_body_immediates:
  "dynamic_body input weight (IntImm st) (IntImm pd) (IntImm h) (IntImm w) =
     static_body input weight st pd h w"
  by (rule ext) (simp add: dynamic_body_def static_body_def)

section \<open>The per-element contribution\<close>

text \<open>
  C1 (amended). For every output index \<open>(n, k, oh, ow)\<close> and reduction index \<open>(c, r, s)\<close>,
  with \<open>ih = oh * stride - pad + r\<close> and \<open>iw = ow * stride - pad + s\<close>, the contribution
  built by the static and by the dynamic builder is \<open>input[n, k, ih, iw] * weight[k, c, r, s]\<close>
  where \<open>0 \<le> ih < H\<close> and \<open>0 \<le> iw < W\<close>, and \<open>0.f * weight[k, c, r, s]\<close> elsewhere: zero
  for every finite weight, NaN for an infinite or NaN weight (the mask replaces the input
  factor, and the product with the weight is still taken).
\<close>

theorem contribution_is_masked_product:
  "feval env m (static_body input weight stride pad H W [n, k, oh, ow, c, r, s]) =
     (let ih = env oh * stride - pad + env r;
          iw = env ow * stride - pad + env s;
          wv = m weight [env k, env c, env r, env s]
      in if ih < 0 \<or> iw < 0 \<or> ih \<ge> H \<or> iw \<ge> W
         then (case wv of Finite q \<Rightarrow> Finite 0 | PInf \<Rightarrow> NaN | NInf \<Rightarrow> NaN | NaN \<Rightarrow> NaN)
         else fmul (m input [env n, env k, ih, iw]) wv) \<and>
   feval env m (dynamic_body input weight stride_e pad_e H_e W_e [n, k, oh, ow, c, r, s]) =
     (let ih = env oh * ieval env stride_e - ieval env pad_e + env r;
          iw = env ow * ieval env stride_e - ieval env pad_e + env s;
          wv = m weight [env k, env c, env r, env s]
      in if ih < 0 \<or> iw < 0 \<or> ih \<ge> ieval env H_e \<or> iw \<ge> ieval env W_e
         then (case wv of Finite q \<Rightarrow> Finite 0 | PInf \<Rightarrow> NaN | NInf \<Rightarrow> NaN | NaN \<Rightarrow> NaN)
         else fmul (m input [env n, env k, ih, iw]) wv)"
proof -
  have z: "fmul (Finite 0) x = (case x of Finite q \<Rightarrow> Finite 0 | PInf \<Rightarrow> NaN | NInf \<Rightarrow> NaN | NaN \<Rightarrow> NaN)" for x
    by (cases x) simp_all
  show ?thesis
    by (simp add: static_body_def dynamic_body_def Let_def z [symmetric])
qed

theorem contribution_is_masked_product_witness:
  "feval (\<lambda>x. 1) (\<lambda>b idx. Finite 2)
     (static_body ex_input ex_weight 1 1 8 8 [''n'', ''k'', ''oh'', ''ow'', ''c'', ''r'', ''s''])
     = Finite 4 \<and>
   feval (\<lambda>x. 0) (\<lambda>b idx. Finite 2)
     (static_body ex_input ex_weight 1 1 8 8 [''n'', ''k'', ''oh'', ''ow'', ''c'', ''r'', ''s''])
     = Finite 0"
  using contribution_is_masked_product
    [of "\<lambda>x. 1" "\<lambda>b idx. Finite 2" ex_input ex_weight 1 1 8 8 "''n''" "''k''" "''oh''" "''ow''"
        "''c''" "''r''" "''s''"]
    contribution_is_masked_product
    [of "\<lambda>x. 0" "\<lambda>b idx. Finite 2" ex_input ex_weight 1 1 8 8 "''n''" "''k''" "''oh''" "''ow''"
        "''c''" "''r''" "''s''"]
  by simp

theorem padding_contribution_not_zero_counterexample:
  "(0::int) * 1 - 1 + 0 < 0 \<and>
   feval (\<lambda>x. 0) (\<lambda>b idx. PInf)
     (static_body ex_input ex_weight 1 1 8 8 [''n'', ''k'', ''oh'', ''ow'', ''c'', ''r'', ''s''])
     \<noteq> Finite 0"
  by (simp add: static_body_def Let_def)

section \<open>The eligibility predicate\<close>

text \<open>
  C2. \<open>conv2dIsSupported\<close> returns true exactly when all seven checks pass: the three
  dtypes are float32; input and weight have rank 4 and bias rank 1; the input channel
  count equals the weight's output channel count and \<open>groups\<close>, with one channel per
  group; the kernel is 3x3; stride is a pair of equal values; padding is a pair of equal
  values; dilation is the pair (1, 1). Being an equivalence, it also says that one failing
  check makes the result false whatever the other six are.
\<close>

theorem conv2dIsSupported_iff_seven_checks:
  "conv2dIsSupported input weight bias stride pad dilation groups \<longleftrightarrow>
     (dtype input = kFloat \<and> dtype weight = kFloat \<and> dtype bias = kFloat) \<and>
     (length (dims input) = 4 \<and> length (dims weight) = 4 \<and> length (dims bias) = 1) \<and>
     (dims input ! 1 = dims weight ! 0 \<and> dims input ! 1 = groups \<and> dims weight ! 1 = 1) \<and>
     (dims weight ! 2 = 3 \<and> dims weight ! 3 = 3) \<and>
     (length stride = 2 \<and> stride ! 0 = stride ! 1) \<and>
     (length pad = 2 \<and> pad ! 0 = pad ! 1) \<and>
     (length dilation = 2 \<and> dilation ! 0 = 1 \<and> dilation ! 1 = 1)"
  unfolding conv2dIsSupported_def Let_def by auto

theorem conv2dIsSupported_iff_seven_checks_witness:
  "conv2dIsSupported \<lparr>dims = [1, 4, 8, 8], dtype = kFloat\<rparr> \<lparr>dims = [4, 1, 3, 3], dtype = kFloat\<rparr>
     \<lparr>dims = [4], dtype = kFloat\<rparr> [1, 1] [1, 1] [1, 1] 4 \<and>
   \<not> conv2dIsSupported \<lparr>dims = [1, 4, 8, 8], dtype = kFloat\<rparr> \<lparr>dims = [4, 1, 3, 3], dtype = kFloat\<rparr>
     \<lparr>dims = [4], dtype = kFloat\<rparr> [1, 1] [1, 1] [1, 1] 1 \<and>
   \<not> conv2dIsSupported \<lparr>dims = [1, 4, 8, 8], dtype = kFloat\<rparr> \<lparr>dims = [4, 1, 5, 5], dtype = kFloat\<rparr>
     \<lparr>dims = [4], dtype = kFloat\<rparr> [1, 1] [1, 1] [1, 1] 4"
  using conv2dIsSupported_iff_seven_checks
    [of "\<lparr>dims = [1, 4, 8, 8], dtype = kFloat\<rparr>" "\<lparr>dims = [4, 1, 3, 3], dtype = kFloat\<rparr>"
        "\<lparr>dims = [4], dtype = kFloat\<rparr>" "[1, 1]" "[1, 1]" "[1, 1]" 4]
    conv2dIsSupported_iff_seven_checks
    [of "\<lparr>dims = [1, 4, 8, 8], dtype = kFloat\<rparr>" "\<lparr>dims = [4, 1, 3, 3], dtype = kFloat\<rparr>"
        "\<lparr>dims = [4], dtype = kFloat\<rparr>" "[1, 1]" "[1, 1]" "[1, 1]" 1]
    conv2dIsSupported_iff_seven_checks
    [of "\<lparr>dims = [1, 4, 8, 8], dtype = kFloat\<rparr>" "\<lparr>dims = [4, 1, 5, 5], dtype = kFloat\<rparr>"
        "\<lparr>dims = [4], dtype = kFloat\<rparr>" "[1, 1]" "[1, 1]" "[1, 1]" 4]
  by simp

section \<open>The fallback path of the dispatcher\<close>

text \<open>
  C3. Let \<open>computeConv2d\<close> be called with the three buffers, the stride, padding and
  dilation arguments (each an integer or a list of at least two integers) and the integer
  \<open>groups\<close>. Where static metadata is missing for input, weight or bias, or
  \<open>conv2dIsSupported\<close> rejects, the result is no error and does not depend on the
  builder: it is the result buffer \<open>conv\<close> bound to the external call
  \<open>nnc_aten_conv2d\<close> on the input, weight and bias buffers with the scalar arguments
  stride_h, stride_w, pad_h, pad_w, dilation_h, dilation_w, groups, in this order.
\<close>

theorem computeConv2d_fallback:
  assumes "7 \<le> length inputs"
    and "inputs ! 0 = ArgBuf inp" and "inputs ! 1 = ArgBuf w" and "inputs ! 2 = ArgBuf b"
    and "pair_int (inputs ! 3) = Inr strides"
    and "pair_int (inputs ! 4) = Inr padding"
    and "pair_int (inputs ! 5) = Inr dilation"
    and "inputs ! 6 = ArgInt g"
    and "\<forall>inpInfo wInfo bInfo.
           getTensorInfo inp = Some inpInfo \<and> getTensorInfo w = Some wInfo \<and>
           getTensorInfo b = Some bInfo \<longrightarrow>
           \<not> conv2dIsSupported inpInfo wInfo bInfo strides padding dilation (int32_of g)"
  shows "computeConv2d inputs outputShape outputType =
     (let ResultBuf = \<lparr>name_hint = ''conv'', buf_dims = outputShape,
            buf_dtype = (case outputType of None \<Rightarrow> kFloat | Some t \<Rightarrow> t)\<rparr>
      in Inr \<lparr>buf = ResultBuf,
              stmt = ExternalCall ResultBuf ''nnc_aten_conv2d'' [inp, w, b]
                [LongImm (strides ! 0), LongImm (strides ! 1),
                 LongImm (padding ! 0), LongImm (padding ! 1),
                 LongImm (dilation ! 0), LongImm (dilation ! 1),
                 IntImm (int32_of g)]\<rparr>)"
  unfolding computeConv2d_args [OF assms(1-8)] Let_def using assms(9)
  by (cases "getTensorInfo inp"; cases "getTensorInfo w"; cases "getTensorInfo b") simp_all

theorem computeConv2d_fallback_witness:
  "computeConv2d [ArgBuf ex_input, ArgBuf ex_weight, ArgBuf ex_bias,
       ArgInt 1, ArgInt 1, ArgInt 1, ArgInt 1] [IntImm 1, IntImm 4, IntImm 8, IntImm 8] None =
     Inr \<lparr>buf = \<lparr>name_hint = ''conv'', buf_dims = [IntImm 1, IntImm 4, IntImm 8, IntImm 8],
                  buf_dtype = kFloat\<rparr>,
          stmt = ExternalCall
            \<lparr>name_hint = ''conv'', buf_dims = [IntImm 1, IntImm 4, IntImm 8, IntImm 8],
               buf_dtype = kFloat\<rparr>
            ''nnc_aten_conv2d'' [ex_input, ex_weight, ex_bias]
            [LongImm 1, LongImm 1, LongImm 1, LongImm 1, LongImm 1, LongImm 1, IntImm 1]\<rparr>"
proof -
  let ?inputs = "[ArgBuf ex_input, ArgBuf ex_weight, ArgBuf ex_bias,
       ArgInt 1, ArgInt 1, ArgInt 1, ArgInt 1]"
  have a: "7 \<le> length ?inputs" "?inputs ! 0 = ArgBuf ex_input" "?inputs ! 1 = ArgBuf ex_weight"
    "?inputs ! 2 = ArgBuf ex_bias" "pair_int (?inputs ! 3) = Inr [1, 1]"
    "pair_int (?inputs ! 4) = Inr [1, 1]" "pair_int (?inputs ! 5) = Inr [1, 1]"
    "?inputs ! 6 = ArgInt 1"
    by simp_all
  have b: "\<forall>inpInfo wInfo bInfo.
           getTensorInfo ex_input = Some inpInfo \<and> getTensorInfo ex_weight = Some wInfo \<and>
           getTensorInfo ex_bias = Some bInfo \<longrightarrow>
           \<not> conv2dIsSupported inpInfo wInfo bInfo [1, 1] [1, 1] [1, 1] (int32_of 1)"
    by (simp add: getTensorInfo_def conv2dIsSupported_def int32_of_def)
  from computeConv2d_fallback [OF a b, of "[IntImm 1, IntImm 4, IntImm 8, IntImm 8]" None]
  show ?thesis by (simp add: int32_of_def Let_def)
qed

section \<open>The sliced nest and the unsliced nest\<close>

text \<open>
  C4. Whenever the static builder is given constant shapes that pass its checks, with
  nonzero \<open>stride\<close> and \<open>groups\<close> (so for every configuration \<open>conv2dIsSupported\<close>
  accepts for which the builder can divide), it returns a tensor, and running the nest of
  that tensor, sliced by rule A, by rule B or not at all, leaves every buffer exactly as
  running the unsliced nest of the same reduction does, from any initial buffers.
\<close>

theorem sliced_nest_computes_the_unsliced_reduction:
  assumes "map immediateAs_int (buf_dims input) = [Inr N, Inr C, Inr H, Inr W]"
    and "map immediateAs_int (buf_dims weight) = [Inr K, Inr CperG, Inr R, Inr S]"
    and "C = K" and "K = groups" and "CperG = 1" and "R = S"
    and "stride \<noteq> 0" and "groups \<noteq> 0"
  shows
    "let conv = Reduce ''conv2d_depthwise''
           [(IntImm N, ''n''), (IntImm K, ''k''),
            (IntImm (cdiv (H - R + 2 * pad) stride + 1), ''oh''),
            (IntImm (cdiv (W - S + 2 * pad) stride + 1), ''ow'')]
           init_func (static_body input weight stride pad H W)
           [(IntImm (cdiv C groups), ''c''), (IntImm R, ''r''), (IntImm S, ''s'')]
     in \<exists>t. conv2d_depthwise_static input weight init_func stride pad groups = Inr t \<and>
            buf t = buf conv \<and>
            (\<forall>X env m. exec X env (stmt t) m = exec X env (LoopNest [conv]) m)"
proof -
  let ?conv = "Reduce ''conv2d_depthwise''
           [(IntImm N, ''n''), (IntImm K, ''k''),
            (IntImm (cdiv (H - R + 2 * pad) stride + 1), ''oh''),
            (IntImm (cdiv (W - S + 2 * pad) stride + 1), ''ow'')]
           init_func (static_body input weight stride pad H W)
           [(IntImm (cdiv C groups), ''c''), (IntImm R, ''r''), (IntImm S, ''s'')]"
  from conv2d_depthwise_static_total [OF assms, where pad = pad and init_func = init_func]
  obtain rt where rt: "slice_policy ?conv R stride pad = Inr rt"
    and t: "conv2d_depthwise_static input weight init_func stride pad groups =
        Inr \<lparr>buf = \<lparr>name_hint = ''conv2d_depthwise'',
                     buf_dims = [IntImm N, IntImm K,
                       IntImm (cdiv (H - R + 2 * pad) stride + 1),
                       IntImm (cdiv (W - S + 2 * pad) stride + 1)],
                     buf_dtype = kFloat\<rparr>,
             stmt = rt\<rparr>"
    by auto
  have b: "buf ?conv = \<lparr>name_hint = ''conv2d_depthwise'',
                     buf_dims = [IntImm N, IntImm K,
                       IntImm (cdiv (H - R + 2 * pad) stride + 1),
                       IntImm (cdiv (W - S + 2 * pad) stride + 1)],
                     buf_dtype = kFloat\<rparr>"
    by (simp add: Reduce_def Let_def)
  have "\<forall>X env m. exec X env rt m = exec X env (LoopNest [?conv]) m"
    using exec_slice_policy [OF rt] by blast
  then show ?thesis
    unfolding Let_def t b by simp
qed

theorem sliced_nest_computes_the_unsliced_reduction_witness:
  "\<exists>t. conv2d_depthwise_static ex_input ex_weight (\<lambda>v. FloatImm (Finite 0)) 2 1 4 = Inr t \<and>
     (\<forall>X env m. exec X env (stmt t) m =
        exec X env (LoopNest [Reduce ''conv2d_depthwise''
           [(IntImm 1, ''n''), (IntImm 4, ''k''), (IntImm 4, ''oh''), (IntImm 4, ''ow'')]
           (\<lambda>v. FloatImm (Finite 0)) (static_body ex_input ex_weight 2 1 8 8)
           [(IntImm 1, ''c''), (IntImm 3, ''r''), (IntImm 3, ''s'')]]) m)"
proof -
  have d: "map immediateAs_int (buf_dims ex_input) = [Inr 1, Inr 4, Inr 8, Inr 8]"
    "map immediateAs_int (buf_dims ex_weight) = [Inr 4, Inr 1, Inr 3, Inr 3]"
    by simp_all
  have c: "(4::int) = 4" "(1::int) = 1" "(3::int) = 3" "(2::int) \<noteq> 0" "(4::int) \<noteq> 0"
    by simp_all
  from sliced_nest_computes_the_unsliced_reduction [OF d c(1,1,2,3,4,5), where pad = 1
      and init_func = "\<lambda>v. FloatImm (Finite 0)"]
  show ?thesis by (auto simp: Let_def cdiv_def)
qed

section \<open>The output extents\<close>

text \<open>
  C5. Both builders compute \<open>OH = (H - R + 2 * pad) / stride + 1\<close> and \<open>OW\<close> likewise with
  integer division. Where \<open>stride\<close> divides \<open>H - R + 2 * pad\<close>, and also where it does not
  but \<open>H - R + 2 * pad \<ge> 0\<close> and \<open>stride > 0\<close>, this is \<open>floor((H - R + 2 * pad) / stride) + 1\<close>.
  Neither builder checks that the quotient is integral: on the same shape the static
  builder returns its tensor with the extents as immediates, the dynamic builder its tensor
  with symbolic extents of the same values.
\<close>

theorem output_extents_floor_formula:
  assumes "map immediateAs_int (buf_dims input) = [Inr N, Inr C, Inr H, Inr W]"
    and "map immediateAs_int (buf_dims weight) = [Inr K, Inr CperG, Inr R, Inr S]"
    and "C = K" and "K = groups" and "CperG = 1" and "R = S"
    and "stride \<noteq> 0" and "groups \<noteq> 0"
    and "ieval env H_e = H" and "ieval env W_e = W" and "ieval env R_e = R"
    and "ieval env S_e = S" and "ieval env stride_e = stride" and "ieval env pad_e = pad"
  shows "\<exists>ts td oh ow.
           conv2d_depthwise_static input weight init_func stride pad groups = Inr ts \<and>
           conv2d_depthwise_dynamic input weight init_func
             N_e C_e H_e W_e K_e CperG_e R_e S_e stride_e pad_e groups_e = Inr td \<and>
           buf_dims (buf ts) ! 2 = IntImm oh \<and> buf_dims (buf ts) ! 3 = IntImm ow \<and>
           ieval env (buf_dims (buf td) ! 2) = oh \<and> ieval env (buf_dims (buf td) ! 3) = ow \<and>
           oh = cdiv (H - R + 2 * pad) stride + 1 \<and> ow = cdiv (W - S + 2 * pad) stride + 1 \<and>
           ((0 \<le> H - R + 2 * pad \<and> 0 < stride) \<or> stride dvd (H - R + 2 * pad) \<longrightarrow>
              oh = (H - R + 2 * pad) div stride + 1) \<and>
           ((0 \<le> W - S + 2 * pad \<and> 0 < stride) \<or> stride dvd (W - S + 2 * pad) \<longrightarrow>
              ow = (W - S + 2 * pad) div stride + 1)"
proof -
  from conv2d_depthwise_static_total [OF assms(1-8), where pad = pad and init_func = init_func]
  obtain ts where static:
    "conv2d_depthwise_static input weight init_func stride pad groups = Inr ts"
    "buf_dims (buf ts) ! 2 = IntImm (cdiv (H - R + 2 * pad) stride + 1)"
    "buf_dims (buf ts) ! 3 = IntImm (cdiv (W - S + 2 * pad) stride + 1)"
    by auto
  have rank: "ndim input = 4" "ndim weight = 4"
    using four_immediates(1) [OF assms(1)] four_immediates(1) [OF assms(2)]
    by (simp_all add: ndim_def)
  have "\<exists>td. conv2d_depthwise_dynamic input weight init_func
                 N_e C_e H_e W_e K_e CperG_e R_e S_e stride_e pad_e groups_e = Inr td \<and>
            ieval env (buf_dims (buf td) ! 2) = cdiv (H - R + 2 * pad) stride + 1 \<and>
            ieval env (buf_dims (buf td) ! 3) = cdiv (W - S + 2 * pad) stride + 1"
    by (simp add: conv2d_depthwise_dynamic_def rank Let_def Reduce_def assms(9-14) mult.commute)
  then obtain td where dynamic:
    "conv2d_depthwise_dynamic input weight init_func
       N_e C_e H_e W_e K_e CperG_e R_e S_e stride_e pad_e groups_e = Inr td"
    "ieval env (buf_dims (buf td) ! 2) = cdiv (H - R + 2 * pad) stride + 1"
    "ieval env (buf_dims (buf td) ! 3) = cdiv (W - S + 2 * pad) stride + 1"
    by auto
  have floor: "cdiv a stride = a div stride"
    if "(0 \<le> a \<and> 0 < stride) \<or> stride dvd a" for a
    using that assms(7) by (intro cdiv_eq_div) auto
  show ?thesis
    using static dynamic floor by simp
qed

theorem output_extents_floor_formula_witness:
  "\<exists>ts td.
     conv2d_depthwise_static ex_input ex_weight (\<lambda>v. FloatImm (Finite 0)) 2 1 4 = Inr ts \<and>
     conv2d_depthwise_dynamic ex_input ex_weight (\<lambda>v. FloatImm (Finite 0))
       (Var ''N'') (Var ''C'') (Var ''H'') (Var ''W'') (Var ''K'') (Var ''CperG'')
       (Var ''R'') (Var ''S'') (Var ''stride'') (Var ''pad'') (Var ''groups'') = Inr td \<and>
     buf_dims (buf ts) ! 2 = IntImm 4 \<and> buf_dims (buf ts) ! 3 = IntImm 4 \<and>
     ieval (\<lambda>x. if x = ''H'' \<or> x = ''W'' then 8 else if x = ''R'' \<or> x = ''S'' then 3
                 else if x = ''stride'' then 2 else 1) (buf_dims (buf td) ! 2) = 4 \<and>
     ieval (\<lambda>x. if x = ''H'' \<or> x = ''W'' then 8 else if x = ''R'' \<or> x = ''S'' then 3
                 else if x = ''stride'' then 2 else 1) (buf_dims (buf td) ! 3) = 4 \<and>
     ((8::int) - 3 + 2 * 1) div 2 + 1 = 4"
proof -
  have d: "map immediateAs_int (buf_dims ex_input) = [Inr 1, Inr 4, Inr 8, Inr 8]"
    "map immediateAs_int (buf_dims ex_weight) = [Inr 4, Inr 1, Inr 3, Inr 3]"
    by simp_all
  have c: "(4::int) = 4" "(1::int) = 1" "(3::int) = 3" "(2::int) \<noteq> 0" "(4::int) \<noteq> 0"
    by simp_all
  let ?env = "\<lambda>x. if x = ''H'' \<or> x = ''W'' then 8 else if x = ''R'' \<or> x = ''S'' then 3
                 else if x = ''stride'' then (2::int) else 1"
  have e: "ieval ?env (Var ''H'') = 8" "ieval ?env (Var ''W'') = 8" "ieval ?env (Var ''R'') = 3"
    "ieval ?env (Var ''S'') = 3" "ieval ?env (Var ''stride'') = 2" "ieval ?env (Var ''pad'') = 1"
    by simp_all
  from output_extents_floor_formula [OF d c(1,1,2,3,4,5) e, where
      init_func = "\<lambda>v. FloatImm (Finite 0)" and N_e = "Var ''N''" and C_e = "Var ''C''"
      and K_e = "Var ''K''" and CperG_e = "Var ''CperG''" and groups_e = "Var ''groups''"]
  obtain ts td oh ow where r:
    "conv2d_depthwise_static ex_input ex_weight (\<lambda>v. FloatImm (Finite 0)) 2 1 4 = Inr ts"
    "conv2d_depthwise_dynamic ex_input ex_weight (\<lambda>v. FloatImm (Finite 0))
       (Var ''N'') (Var ''C'') (Var ''H'') (Var ''W'') (Var ''K'') (Var ''CperG'')
       (Var ''R'') (Var ''S'') (Var ''stride'') (Var ''pad'') (Var ''groups'') = Inr td"
    "buf_dims (buf ts) ! 2 = IntImm oh" "buf_dims (buf ts) ! 3 = IntImm ow"
    "ieval ?env (buf_dims (buf td) ! 2) = oh" "ieval ?env (buf_dims (buf td) ! 3) = ow"
    "(0 \<le> (8::int) - 3 + 2 * 1 \<and> (0::int) < 2) \<or> (2::int) dvd 8 - 3 + 2 * 1 \<longrightarrow>
       oh = (8 - 3 + 2 * 1) div 2 + 1"
    "(0 \<le> (8::int) - 3 + 2 * 1 \<and> (0::int) < 2) \<or> (2::int) dvd 8 - 3 + 2 * 1 \<longrightarrow>
       ow = (8 - 3 + 2 * 1) div 2 + 1"
    by blast
  have "oh = 4" "ow = 4" using r(7,8) by simp_all
  with r(1-6) show ?thesis by auto
qed

section \<open>Slicing rule A and the unmatched case\<close>

text \<open>
  C6. For a static lowering with \<open>R = 3\<close>, \<open>stride = 2\<close> and \<open>pad = 1\<close> the builder returns
  the nest of the reduction with the loop of \<open>ow\<close> (position 3 of the loops around the
  reduction) split into a head loop over its first two iterations, from 0 up to
  \<open>min 2 OW\<close>, followed by the loop over the rest, and then the loop of \<open>oh\<close> (position 2)
  split the same way, each of its two parts holding both \<open>ow\<close> loops. Nothing else is
  changed. Where neither rule matches, the nest is returned as the reduction built it.
\<close>

theorem static_rule_A_peels_two_iterations:
  assumes "map immediateAs_int (buf_dims input) = [Inr N, Inr C, Inr H, Inr W]"
    and "map immediateAs_int (buf_dims weight) = [Inr K, Inr CperG, Inr R, Inr S]"
    and "C = K" and "K = groups" and "CperG = 1" and "R = S"
    and "stride \<noteq> 0" and "groups \<noteq> 0"
  shows
    "let OH = cdiv (H - R + 2 * pad) stride + 1;
         OW = cdiv (W - S + 2 * pad) stride + 1;
         cb = \<lparr>name_hint = ''conv2d_depthwise'',
               buf_dims = [IntImm N, IntImm K, IntImm OH, IntImm OW], buf_dtype = kFloat\<rparr>;
         idx = [Var ''n'', Var ''k'', Var ''oh'', Var ''ow''];
         inner = Block
           [Store cb idx (init_func [''n'', ''k'', ''oh'', ''ow'']),
            For ''c'' (IntImm 0) (IntImm (cdiv C groups)) (Block
              [For ''r'' (IntImm 0) (IntImm R) (Block
                 [For ''s'' (IntImm 0) (IntImm S) (Block
                    [Store cb idx (FAdd (Load cb idx)
                       (static_body input weight stride pad H W
                          [''n'', ''k'', ''oh'', ''ow'', ''c'', ''r'', ''s'']))])])])];
         w2 = MinE (Add (IntImm 0) (IntImm 2)) (IntImm OW);
         h2 = MinE (Add (IntImm 0) (IntImm 2)) (IntImm OH);
         ows = Block [For ''ow'' (IntImm 0) w2 inner, For ''ow'' w2 (IntImm OW) inner]
     in (R = 3 \<and> stride = 2 \<and> pad = 1 \<longrightarrow>
           conv2d_depthwise_static input weight init_func stride pad groups =
             Inr \<lparr>buf = cb,
                  stmt = Block [For ''n'' (IntImm 0) (IntImm N) (Block
                    [For ''k'' (IntImm 0) (IntImm K) (Block
                       [For ''oh'' (IntImm 0) h2 ows, For ''oh'' h2 (IntImm OH) ows])])]\<rparr>) \<and>
        (\<not> (R = 3 \<and> stride = 2 \<and> pad = 1) \<and> \<not> (R = 3 \<and> stride = 1 \<and> pad = 1) \<longrightarrow>
           conv2d_depthwise_static input weight init_func stride pad groups =
             Inr \<lparr>buf = cb,
                  stmt = Block [For ''n'' (IntImm 0) (IntImm N) (Block
                    [For ''k'' (IntImm 0) (IntImm K) (Block
                       [For ''oh'' (IntImm 0) (IntImm OH) (Block
                          [For ''ow'' (IntImm 0) (IntImm OW) inner])])])]\<rparr>) \<and>
        ieval env w2 = min 2 OW \<and> ieval env h2 = min 2 OH"
proof -
  have a: "R = 3 \<and> stride = 2 \<and> pad = 1 \<Longrightarrow> ?thesis"
    unfolding conv2d_depthwise_static_unfold [OF assms(1,2)] Reduce_nest Let_def
    using assms(3-8) by (simp add: slice_policy_rule_A Let_def)
  have n: "\<not> (R = 3 \<and> stride = 2 \<and> pad = 1) \<Longrightarrow> \<not> (R = 3 \<and> stride = 1 \<and> pad = 1) \<Longrightarrow> ?thesis"
    unfolding conv2d_depthwise_static_unfold [OF assms(1,2)] Reduce_nest Let_def
    using assms(3-8) by (auto simp add: slice_policy_no_rule LoopNest_def)
  have b: "R = 3 \<and> stride = 1 \<and> pad = 1 \<Longrightarrow> ?thesis"
    unfolding Let_def by simp
  from a n b show ?thesis by blast
qed

theorem static_rule_A_peels_two_iterations_witness:
  "\<exists>inner. conv2d_depthwise_static ex_input ex_weight (\<lambda>v. FloatImm (Finite 0)) 2 1 4 =
     Inr \<lparr>buf = \<lparr>name_hint = ''conv2d_depthwise'',
                  buf_dims = [IntImm 1, IntImm 4, IntImm 4, IntImm 4], buf_dtype = kFloat\<rparr>,
          stmt = Block [For ''n'' (IntImm 0) (IntImm 1) (Block
            [For ''k'' (IntImm 0) (IntImm 4) (Block
               [For ''oh'' (IntImm 0) (MinE (Add (IntImm 0) (IntImm 2)) (IntImm 4)) (Block
                  [For ''ow'' (IntImm 0) (MinE (Add (IntImm 0) (IntImm 2)) (IntImm 4)) inner,
                   For ''ow'' (MinE (Add (IntImm 0) (IntImm 2)) (IntImm 4)) (IntImm 4) inner]),
                For ''oh'' (MinE (Add (IntImm 0) (IntImm 2)) (IntImm 4)) (IntImm 4) (Block
                  [For ''ow'' (IntImm 0) (MinE (Add (IntImm 0) (IntImm 2)) (IntImm 4)) inner,
                   For ''ow'' (MinE (Add (IntImm 0) (IntImm 2)) (IntImm 4)) (IntImm 4) inner])])])]\<rparr>"
proof -
  have d: "map immediateAs_int (buf_dims ex_input) = [Inr 1, Inr 4, Inr 8, Inr 8]"
    "map immediateAs_int (buf_dims ex_weight) = [Inr 4, Inr 1, Inr 3, Inr 3]"
    by simp_all
  have c: "(4::int) = 4" "(1::int) = 1" "(3::int) = 3" "(2::int) \<noteq> 0" "(4::int) \<noteq> 0"
    by simp_all
  from static_rule_A_peels_two_iterations [OF d c(1,1,2,3,4,5), where pad = 1
      and init_func = "\<lambda>v. FloatImm (Finite 0)"]
  show ?thesis by (simp add: Let_def cdiv_def)
qed

section \<open>Slicing rule B\<close>




section \<open>The dynamic builder\<close>

text \<open>
  C8 (amended). The dynamic builder asserts only that input and weight have rank 4. For
  buffers of any dimensions, symbolic or constant, the overload without bias returns the
  reduction as \<open>Reduce\<close> builds it, with no loop transformation. The overload with bias
  first asserts that the dimensions of the bias buffer are constants, and returns the
  reduction initialized from the bias where they are. The reduction has the index names
  and initializer of the static variant, and its body is the static body where \<open>stride\<close>,
  \<open>pad\<close>, \<open>H\<close> and \<open>W\<close> are immediates.
\<close>

theorem dynamic_builder_asserts_only_bias_and_slices_nothing:
  assumes "ndim input = 4" and "ndim weight = 4"
  shows
    "let OH = Add (Div (Add (Sub H R) (Mul pad (IntImm 2))) stride) (IntImm 1);
         OW = Add (Div (Add (Sub W S) (Mul pad (IntImm 2))) stride) (IntImm 1);
         reduction = (\<lambda>init_func. Reduce ''conv2d_depthwise''
           [(N, ''n''), (K, ''k''), (OH, ''oh''), (OW, ''ow'')]
           init_func (dynamic_body input weight stride pad H W)
           [(Div C groups, ''c''), (R, ''r''), (S, ''s'')])
     in conv2d_depthwise_dyn_nobias input weight N C H W K CperG R S stride pad groups =
          Inr (reduction (\<lambda>v. FloatImm (Finite 0))) \<and>
        conv2d_depthwise_dyn_bias input weight bias N C H W K CperG R S stride pad groups =
          (if list_all isConstant (buf_dims bias)
           then Inr (reduction (\<lambda>v. Load bias [Var (v ! 1)]))
           else Inl InternalAssert) \<and>
        dynamic_body input weight (IntImm st) (IntImm pd) (IntImm h) (IntImm w) =
          static_body input weight st pd h w"
  using assms
  by (simp add: conv2d_depthwise_dyn_nobias_def conv2d_depthwise_dyn_bias_def
      conv2d_depthwise_dynamic_def assert_dims_constant_def Let_def dynamic_body_immediates)

theorem dynamic_builder_asserts_only_bias_and_slices_nothing_witness:
  "conv2d_depthwise_dyn_nobias ex_symbolic_input ex_symbolic_weight
     (Var ''N'') (Var ''C'') (Var ''H'') (Var ''W'') (Var ''K'') (Var ''CperG'')
     (Var ''R'') (Var ''S'') (Var ''stride'') (Var ''pad'') (Var ''groups'') =
   Inr (Reduce ''conv2d_depthwise''
     [(Var ''N'', ''n''), (Var ''K'', ''k''),
      (Add (Div (Add (Sub (Var ''H'') (Var ''R'')) (Mul (Var ''pad'') (IntImm 2))) (Var ''stride''))
         (IntImm 1), ''oh''),
      (Add (Div (Add (Sub (Var ''W'') (Var ''S'')) (Mul (Var ''pad'') (IntImm 2))) (Var ''stride''))
         (IntImm 1), ''ow'')]
     (\<lambda>v. FloatImm (Finite 0))
     (dynamic_body ex_symbolic_input ex_symbolic_weight (Var ''stride'') (Var ''pad'')
        (Var ''H'') (Var ''W''))
     [(Div (Var ''C'') (Var ''groups''), ''c''), (Var ''R'', ''r''), (Var ''S'', ''s'')])"
proof -
  have r: "ndim ex_symbolic_input = 4" "ndim ex_symbolic_weight = 4"
    by (simp_all add: ndim_def)
  from dynamic_builder_asserts_only_bias_and_slices_nothing [OF r,
      where N = "Var ''N''" and C = "Var ''C''" and H = "Var ''H''" and W = "Var ''W''"
        and K = "Var ''K''" and CperG = "Var ''CperG''" and R = "Var ''R''" and S = "Var ''S''"
        and stride = "Var ''stride''" and pad = "Var ''pad''" and groups = "Var ''groups''"]
  show ?thesis unfolding Let_def by blast
qed

theorem dynamic_bias_overload_asserts_constant_bias_counterexample:
  "conv2d_depthwise_dyn_bias ex_symbolic_input ex_symbolic_weight ex_symbolic_bias
     (Var ''N'') (Var ''C'') (Var ''H'') (Var ''W'') (Var ''K'') (Var ''CperG'')
     (Var ''R'') (Var ''S'') (Var ''stride'') (Var ''pad'') (Var ''groups'') = Inl InternalAssert"
  by (simp add: conv2d_depthwise_dyn_bias_def assert_dims_constant_def)

section \<open>The assertions of the static builder on the specialized path\<close>

text \<open>
  C9. Where \<open>computeConv2d\<close> takes the specialized path (static metadata for input,
  weight and bias, and \<open>conv2dIsSupported\<close> accepts), it returns what \<open>conv2d_depthwise\<close>
  returns, and every assertion on the way holds: input and weight have rank 4, the
  dimensions of input, weight and bias are constants, \<open>C = K = groups\<close>, there is one
  channel per group, and \<open>R = S\<close>. So the result is never a failed assertion; it is a tensor
  unless \<open>stride\<close> or \<open>groups\<close> is zero.
\<close>

theorem specialized_path_assertions_hold:
  assumes "7 \<le> length inputs"
    and "inputs ! 0 = ArgBuf inp" and "inputs ! 1 = ArgBuf w" and "inputs ! 2 = ArgBuf b"
    and "pair_int (inputs ! 3) = Inr strides"
    and "pair_int (inputs ! 4) = Inr padding"
    and "pair_int (inputs ! 5) = Inr dilation"
    and "inputs ! 6 = ArgInt g"
    and "getTensorInfo inp = Some inpInfo" and "getTensorInfo w = Some wInfo"
    and "getTensorInfo b = Some bInfo"
    and "conv2dIsSupported inpInfo wInfo bInfo strides padding dilation (int32_of g)"
  shows "ndim inp = 4 \<and> ndim w = 4 \<and>
     assert_dims_constant inp = Inr () \<and> assert_dims_constant w = Inr () \<and>
     assert_dims_constant b = Inr () \<and>
     (\<exists>N C H W K CperG R S.
        map immediateAs_int (buf_dims inp) = [Inr N, Inr C, Inr H, Inr W] \<and>
        map immediateAs_int (buf_dims w) = [Inr K, Inr CperG, Inr R, Inr S] \<and>
        C = K \<and> K = int32_of g \<and> CperG = 1 \<and> R = S) \<and>
     computeConv2d inputs outputShape outputType =
       conv2d_depthwise_bias inp w b (int32_of (strides ! 0)) (int32_of (padding ! 0)) (int32_of g) \<and>
     computeConv2d inputs outputShape outputType \<noteq> Inl InternalAssert \<and>
     (int32_of (strides ! 0) \<noteq> 0 \<and> int32_of g \<noteq> 0 \<longrightarrow>
        (\<exists>t. computeConv2d inputs outputShape outputType = Inr t))"
proof -
  let ?g = "int32_of g"
  let ?st = "int32_of (strides ! 0)"
  let ?pd = "int32_of (padding ! 0)"
  note chk = assms(12) [unfolded conv2dIsSupported_checks]
  note ci = getTensorInfo_Some(1) [OF assms(9)]
  note cw = getTensorInfo_Some(1) [OF assms(10)]
  note cb = getTensorInfo_Some(1) [OF assms(11)]
  have li: "length (dims inpInfo) = 4" and lw: "length (dims wInfo) = 4"
    using chk by simp_all
  from const_dims_four [OF ci li] obtain N C H W where
    di: "map immediateAs_int (buf_dims inp) = [Inr N, Inr C, Inr H, Inr W]"
    and C: "C = dims inpInfo ! 1 \<or> C = int32_of (dims inpInfo ! 1)"
    by auto
  from const_dims_four [OF cw lw] obtain K CperG R S where
    dw: "map immediateAs_int (buf_dims w) = [Inr K, Inr CperG, Inr R, Inr S]"
    and K: "K = dims wInfo ! 0 \<or> K = int32_of (dims wInfo ! 0)"
    and G: "CperG = dims wInfo ! 1 \<or> CperG = int32_of (dims wInfo ! 1)"
    and R: "R = dims wInfo ! 2 \<or> R = int32_of (dims wInfo ! 2)"
    and S: "S = dims wInfo ! 3 \<or> S = int32_of (dims wInfo ! 3)"
    by auto
  have cin: "dims inpInfo ! 1 = ?g" "dims wInfo ! 0 = ?g" "dims wInfo ! 1 = 1"
    "dims wInfo ! 2 = 3" "dims wInfo ! 3 = 3"
    using chk by simp_all
  have eqs: "C = ?g" "K = ?g" "CperG = 1" "R = 3" "S = 3"
    using C K G R S unfolding cin int32_of_idem int32_of_small by simp_all
  have rank: "ndim inp = 4" "ndim w = 4"
    using four_immediates(1) [OF di] four_immediates(1) [OF dw] by (simp_all add: ndim_def)
  have const: "assert_dims_constant inp = Inr ()" "assert_dims_constant w = Inr ()"
    "assert_dims_constant b = Inr ()"
    using const_dims_constant [OF ci] const_dims_constant [OF cw] const_dims_constant [OF cb]
    by (simp_all add: assert_dims_constant_def)
  have path: "computeConv2d inputs outputShape outputType = conv2d_depthwise_bias inp w b ?st ?pd ?g"
    unfolding computeConv2d_args [OF assms(1-8)] Let_def by (simp add: assms(9-12))
  let ?init = "\<lambda>v. Load b [Var (v ! 1)]"
  have bias: "conv2d_depthwise_bias inp w b ?st ?pd ?g = conv2d_depthwise_static inp w ?init ?st ?pd ?g"
    by (simp add: conv2d_depthwise_bias_def const(3))
  have no_assert: "conv2d_depthwise_static inp w ?init ?st ?pd ?g \<noteq> Inl InternalAssert"
  proof (cases "?st = 0 \<or> ?g = 0")
    case True
    then show ?thesis
      unfolding conv2d_depthwise_static_unfold [OF di dw] using eqs by auto
  next
    case False
    with conv2d_depthwise_static_total [OF di dw, where groups = ?g and stride = ?st and init_func = ?init and pad = ?pd] eqs
    show ?thesis by auto
  qed
  have total: "?st \<noteq> 0 \<and> ?g \<noteq> 0 \<longrightarrow> (\<exists>t. conv2d_depthwise_static inp w ?init ?st ?pd ?g = Inr t)"
    using conv2d_depthwise_static_total [OF di dw, where groups = ?g and stride = ?st and init_func = ?init and pad = ?pd] eqs by auto
  have ex: "\<exists>N C H W K CperG R S.
        map immediateAs_int (buf_dims inp) = [Inr N, Inr C, Inr H, Inr W] \<and>
        map immediateAs_int (buf_dims w) = [Inr K, Inr CperG, Inr R, Inr S] \<and>
        C = K \<and> K = int32_of g \<and> CperG = 1 \<and> R = S"
    using di dw eqs by fastforce
  show ?thesis
    using rank const ex path bias no_assert total by simp
qed

theorem specialized_path_assertions_hold_witness:
  "ndim ex_input = 4 \<and> assert_dims_constant ex_bias = Inr () \<and>
   computeConv2d [ArgBuf ex_input, ArgBuf ex_weight, ArgBuf ex_bias,
       ArgInt 1, ArgInt 1, ArgInt 1, ArgInt 4] [IntImm 1, IntImm 4, IntImm 8, IntImm 8] None
     \<noteq> Inl InternalAssert"
proof -
  let ?inputs = "[ArgBuf ex_input, ArgBuf ex_weight, ArgBuf ex_bias,
       ArgInt 1, ArgInt 1, ArgInt 1, ArgInt 4]"
  have a: "7 \<le> length ?inputs" "?inputs ! 0 = ArgBuf ex_input" "?inputs ! 1 = ArgBuf ex_weight"
    "?inputs ! 2 = ArgBuf ex_bias" "pair_int (?inputs ! 3) = Inr [1, 1]"
    "pair_int (?inputs ! 4) = Inr [1, 1]" "pair_int (?inputs ! 5) = Inr [1, 1]"
    "?inputs ! 6 = ArgInt 4"
    by simp_all
  have b: "getTensorInfo ex_input = Some \<lparr>dims = [1, 4, 8, 8], dtype = kFloat\<rparr>"
    "getTensorInfo ex_weight = Some \<lparr>dims = [4, 1, 3, 3], dtype = kFloat\<rparr>"
    "getTensorInfo ex_bias = Some \<lparr>dims = [4], dtype = kFloat\<rparr>"
    by (simp_all add: getTensorInfo_def)
  have c: "conv2dIsSupported \<lparr>dims = [1, 4, 8, 8], dtype = kFloat\<rparr>
     \<lparr>dims = [4, 1, 3, 3], dtype = kFloat\<rparr> \<lparr>dims = [4], dtype = kFloat\<rparr>
     [1, 1] [1, 1] [1, 1] (int32_of 4)"
    by (simp add: conv2dIsSupported_def int32_of_def)
  from specialized_path_assertions_hold [OF a b c]
  show ?thesis by blast
qed

section \<open>Scalar stride, padding and dilation\<close>



end
